(* ===== verification/Prelude.thy ===== *)
theory Prelude
  imports Complex_Main "HOL-Library.Multiset"
begin

text \<open>
  Shared vocabulary of the development: the JavaScript runtime behaviour that every
  component of \<open>src/src/app/home/home.page.ts\<close> relies on.
  \<^item> A read of a property of \<open>undefined\<close> throws a \<open>TypeError\<close>; the model returns
    \<open>Inl (TypeError p)\<close>, \<open>p\<close> the property being read, and composes such reads with
    \<open>js_bind\<close> so that the first failing read decides the outcome, as the exception does.
  \<^item> An array read \<open>xs[i]\<close> past the end is \<open>undefined\<close>, not an error: \<open>js_at\<close> returns
    \<open>None\<close> there, and only the property read that follows throws.
  \<^item> \<open>Array.prototype.push\<close> appends; assigning \<open>length = 0\<close> truncates to \<open>[]\<close>.
  The lemmas of this theory are the generic facts on lists and sums the components share;
  the collection \<open>js_simps\<close> gathers the evaluation rules of the runtime helpers.
\<close>

named_theorems js_simps "evaluation rules of the JavaScript runtime helpers"

datatype js_error = TypeError string

type_synonym 'a js_result = "js_error + 'a"

definition js_at :: "'a list \<Rightarrow> nat \<Rightarrow> 'a option" where
  "js_at xs i = (if i < length xs then Some (xs ! i) else None)"

definition js_get :: "'a option \<Rightarrow> string \<Rightarrow> 'a js_result" where
  "js_get v p = (case v of None \<Rightarrow> Inl (TypeError p) | Some x \<Rightarrow> Inr x)"

definition js_bind :: "'a js_result \<Rightarrow> ('a \<Rightarrow> 'b js_result) \<Rightarrow> 'b js_result" where
  "js_bind r f = (case r of Inl e \<Rightarrow> Inl e | Inr x \<Rightarrow> f x)"

definition js_push :: "'a list \<Rightarrow> 'a \<Rightarrow> 'a list" where
  "js_push xs x = xs @ [x]"

subsection \<open>Evaluation rules\<close>

lemma js_bind_Inl [simp, js_simps]: "js_bind (Inl e) f = Inl e"
  by (simp add: js_bind_def)

lemma js_bind_Inr [simp, js_simps]: "js_bind (Inr x) f = f x"
  by (simp add: js_bind_def)

lemma js_get_None [simp, js_simps]: "js_get None p = Inl (TypeError p)"
  by (simp add: js_get_def)

lemma js_get_Some [simp, js_simps]: "js_get (Some x) p = Inr x"
  by (simp add: js_get_def)

lemma js_at_Cons_0 [simp, js_simps]: "js_at (x # xs) 0 = Some x"
  by (simp add: js_at_def)

lemma js_at_Nil [simp, js_simps]: "js_at [] i = None"
  by (simp add: js_at_def)

lemma js_at_Cons_Suc [simp, js_simps]: "js_at (x # xs) (Suc i) = js_at xs i"
  by (simp add: js_at_def)

lemma js_at_numeral [simp, js_simps]:
  "js_at (x # xs) (numeral n) = js_at xs (pred_numeral n)"
  by (simp add: js_at_def numeral_eq_Suc)

lemma js_at_eq_None_iff: "js_at xs i = None \<longleftrightarrow> length xs \<le> i"
  by (simp add: js_at_def)

lemma js_at_eq_Some_iff: "js_at xs i = Some x \<longleftrightarrow> i < length xs \<and> xs ! i = x"
  by (auto simp: js_at_def)

lemma js_at_less: "i < length xs \<Longrightarrow> js_at xs i = Some (xs ! i)"
  by (simp add: js_at_def)

lemma js_bind_eq_Inr_iff:
  "js_bind r f = Inr y \<longleftrightarrow> (\<exists>x. r = Inr x \<and> f x = Inr y)"
  by (cases r) auto

lemma js_bind_eq_Inl_iff:
  "js_bind r f = Inl e \<longleftrightarrow> r = Inl e \<or> (\<exists>x. r = Inr x \<and> f x = Inl e)"
  by (cases r) auto

lemma js_get_eq_Inr_iff: "js_get v p = Inr x \<longleftrightarrow> v = Some x"
  by (cases v) auto

lemma js_push_nth_0 [simp, js_simps]: "xs \<noteq> [] \<Longrightarrow> js_push xs x ! 0 = xs ! 0"
  by (cases xs) (auto simp: js_push_def)

lemma js_push_Nil [simp, js_simps]: "js_push [] x = [x]"
  by (simp add: js_push_def)

lemma js_push_ne [simp]: "js_push xs x \<noteq> []"
  by (simp add: js_push_def)

lemma mset_js_push [simp]: "mset (js_push xs x) = add_mset x (mset xs)"
  by (simp add: js_push_def)

lemma length_js_push [simp]: "length (js_push xs x) = Suc (length xs)"
  by (simp add: js_push_def)

subsection \<open>The first element a filter keeps\<close>

text \<open>
  \<open>xs.filter(p)[0]\<close> is the first element of \<open>xs\<close> that satisfies \<open>p\<close>: it sits at
  some index \<open>i\<close> of \<open>xs\<close> and no earlier element satisfies \<open>p\<close>.
\<close>

lemma filter_first_index:
  assumes "filter P xs = y # ys"
  shows "\<exists>i < length xs. xs ! i = y \<and> P y \<and> (\<forall>j < i. \<not> P (xs ! j))"
  using assms
proof (induction xs arbitrary: ys)
  case Nil
  then show ?case by simp
next
  case (Cons x xs)
  show ?case
  proof (cases "P x")
    case True
    with Cons.prems show ?thesis by auto
  next
    case False
    with Cons.prems have "filter P xs = y # ys" by simp
    then obtain i where "i < length xs" "xs ! i = y" "P y" "\<forall>j < i. \<not> P (xs ! j)"
      using Cons.IH by blast
    with False show ?thesis
      by (intro exI [of _ "Suc i"]) (auto simp: less_Suc_eq_0_disj)
  qed
qed

lemma filter_eq_Nil_iff': "filter P xs = [] \<longleftrightarrow> (\<forall>x \<in> set xs. \<not> P x)"
  by (simp add: filter_empty_conv)

subsection \<open>takeWhile and dropWhile\<close>

lemma dropWhile_all_not: "(\<forall>c \<in> set s. \<not> P c) \<Longrightarrow> dropWhile P s = s"
  by (cases s) auto

lemma takeWhile_all: "(\<forall>c \<in> set s. P c) \<Longrightarrow> takeWhile P s = s"
  by (induction s) auto

lemma dropWhile_all: "(\<forall>c \<in> set s. P c) \<Longrightarrow> dropWhile P s = []"
  by (induction s) auto

lemma in_set_dropWhile: "x \<in> set s \<Longrightarrow> \<not> P x \<Longrightarrow> x \<in> set (dropWhile P s)"
  by (induction s) auto

subsection \<open>Integer division by a constant\<close>

text \<open>One more than \<open>a\<close> has the same quotient, or one more exactly when it is a multiple.\<close>

lemma div_plus_one:
  assumes "1 < (n::int)"
  shows "(a + 1) div n = a div n + (if (a + 1) mod n = 0 then 1 else 0)"
proof -
  have "(a + 1) div n = a div n + (a mod n + 1) div n"
    using div_add1_eq [of a 1 n] assms by simp
  moreover have "(a + 1) mod n = (a mod n + 1) mod n" by (simp add: mod_add_left_eq)
  moreover have "0 \<le> a mod n" "a mod n < n" using assms by simp_all
  ultimately show ?thesis
    by (cases "a mod n + 1 = n") auto
qed

lemma div_plus_one_bounds:
  "1 < (n::int) \<Longrightarrow> a div n \<le> (a + 1) div n \<and> (a + 1) div n \<le> a div n + 1"
  by (simp add: div_plus_one)

text \<open>Floor division by a positive divisor against multiplication.\<close>

lemma int_le_div_iff:
  assumes "0 < (k::int)"
  shows "a \<le> t div k \<longleftrightarrow> k * a \<le> t"
proof -
  have t: "k * (t div k) + t mod k = t" by (rule mult_div_mod_eq)
  have m: "0 \<le> t mod k" "t mod k < k" using assms by simp_all
  show ?thesis
  proof
    assume "a \<le> t div k"
    then have "k * a \<le> k * (t div k)" using assms by simp
    with t m show "k * a \<le> t" by linarith
  next
    assume ka: "k * a \<le> t"
    show "a \<le> t div k"
    proof (rule ccontr)
      assume "\<not> a \<le> t div k"
      then have "k * (t div k + 1) \<le> k * a" using assms by simp
      then have "k * (t div k) + k \<le> k * a" by (simp add: distrib_left)
      with ka t m show False by linarith
    qed
  qed
qed

lemma int_div_less_iff: "0 < (k::int) \<Longrightarrow> t div k < a \<longleftrightarrow> t < k * a"
  using int_le_div_iff [of k a t] by linarith

subsection \<open>Searches over an index range\<close>

lemma list_ex_upt_Suc: "list_ex P [0..<Suc n] \<longleftrightarrow> (\<exists>i \<le> n. P i)"
  unfolding list_ex_iff set_upt atLeastLessThanSuc_atLeastAtMost by auto

end
