(* ===== verification/JsNumber.thy ===== *)
theory JsNumber
  imports Prelude
begin

text \<open>
  The JavaScript number operations that \<open>home.page.ts\<close> calls: \<open>Math.round\<close> (the
  percentages, lines 142 and 155--160), \<open>Math.floor\<close> of a scaled \<open>Math.random()\<close> (the
  patient id, line 51), \<open>Number(s)\<close> on a string (the patient id read back from the
  response, line 148) and the conversion of an integer to a string in a template literal
  (the prediction date, line 55).
  Numbers are exact rationals here: the model does not follow IEEE-754 rounding of the
  products \<open>p * 100\<close>, and \<open>-0\<close> is not told apart from \<open>0\<close>.
  Strings are Isabelle strings, whose characters are the code units U+0000 to U+00FF.
\<close>

subsection \<open>Math.round and the percentage\<close>

text \<open>
  ECMAScript's \<open>Math.round(x)\<close> is the integer closest to \<open>x\<close>, ties going towards
  \<open>+\<infinity>\<close>; on exact values that is \<open>\<lfloor>x + 1/2\<rfloor>\<close>.
\<close>

definition js_round :: "rat \<Rightarrow> int" where
  "js_round x = \<lfloor>x + 1 / 2\<rfloor>"

text \<open>\<open>Math.round(p * 100)\<close>: the expression every percentage of the page is made by.\<close>

definition percent :: "rat \<Rightarrow> int" where
  "percent p = js_round (p * 100)"

text \<open>The abstract contract of \<open>Math.round\<close>: no integer is closer, and a tie goes up.\<close>

definition rounds_to :: "rat \<Rightarrow> int \<Rightarrow> bool" where
  "rounds_to x r \<longleftrightarrow>
     (\<forall>k::int. \<bar>x - of_int r\<bar> < \<bar>x - of_int k\<bar> \<or> (\<bar>x - of_int r\<bar> = \<bar>x - of_int k\<bar> \<and> k \<le> r))"

subsection \<open>Number(string)\<close>

text \<open>
  The values of \<open>Number(s)\<close>: a finite value, \<open>NaN\<close>, or one of the infinities.
\<close>

datatype js_number = JNum rat | JNaN | JInfinity | JNegInfinity

definition js_negate :: "js_number \<Rightarrow> js_number" where
  "js_negate v = (case v of JNum q \<Rightarrow> JNum (- q) | JInfinity \<Rightarrow> JNegInfinity
                   | JNegInfinity \<Rightarrow> JInfinity | JNaN \<Rightarrow> JNaN)"

text \<open>
  \<open>StrWhiteSpaceChar\<close> among the characters the model has: TAB, LF, VT, FF, CR, SPACE and
  NO-BREAK SPACE (U+00A0).
\<close>

definition js_ws :: "char \<Rightarrow> bool" where
  "js_ws c \<longleftrightarrow> of_char c \<in> {9, 10, 11, 12, 13, 32, 160 :: nat}"

definition js_trim :: "string \<Rightarrow> string" where
  "js_trim s = rev (dropWhile js_ws (rev (dropWhile js_ws s)))"

definition is_dec :: "char \<Rightarrow> bool" where
  "is_dec c \<longleftrightarrow> (let n = of_char c :: nat in 48 \<le> n \<and> n \<le> 57)"

text \<open>The value of a character as a digit of radix \<open>r\<close> (letters count from 10).\<close>

definition digit_value :: "nat \<Rightarrow> char \<Rightarrow> nat option" where
  "digit_value r c =
     (let n = of_char c :: nat;
          d = (if 48 \<le> n \<and> n \<le> 57 then n - 48
               else if 97 \<le> n \<and> n \<le> 122 then n - 87
               else if 65 \<le> n \<and> n \<le> 90 then n - 55
               else r)
      in if d < r then Some d else None)"

fun radix_digits :: "nat \<Rightarrow> nat \<Rightarrow> string \<Rightarrow> nat option" where
  "radix_digits r acc [] = Some acc"
| "radix_digits r acc (c # cs) =
     (case digit_value r c of None \<Rightarrow> None | Some d \<Rightarrow> radix_digits r (acc * r + d) cs)"

definition parse_radix_int :: "nat \<Rightarrow> string \<Rightarrow> nat option" where
  "parse_radix_int r s = (if s = [] then None else radix_digits r 0 s)"

text \<open>The value of a string of decimal digits.\<close>

definition dec_value :: "string \<Rightarrow> nat" where
  "dec_value s = foldl (\<lambda>acc c. acc * 10 + (of_char c - 48)) 0 s"

text \<open>\<open>ExponentPart\<close> after the \<open>e\<close>: an optionally signed decimal integer.\<close>

definition parse_exponent :: "string \<Rightarrow> int option" where
  "parse_exponent e =
     (case e of
        [] \<Rightarrow> None
      | c # ds \<Rightarrow>
          (if c = CHR ''+'' then map_option int (parse_radix_int 10 ds)
           else if c = CHR ''-'' then map_option (\<lambda>n. - int n) (parse_radix_int 10 ds)
           else map_option int (parse_radix_int 10 e)))"

text \<open>
  The mantissa of a \<open>StrUnsignedDecimalLiteral\<close>: digits, optionally a point and more
  digits, with at least one digit in all; the result is the two digit strings.
\<close>

definition parse_mantissa :: "string \<Rightarrow> (string \<times> string) option" where
  "parse_mantissa m =
     (let d1 = takeWhile is_dec m; rest = dropWhile is_dec m
      in case rest of
           [] \<Rightarrow> (if d1 = [] then None else Some (d1, []))
         | c # d2 \<Rightarrow>
             (if c = CHR ''.'' \<and> list_all is_dec d2 \<and> (d1 \<noteq> [] \<or> d2 \<noteq> [])
              then Some (d1, d2) else None))"

definition decimal_value :: "string \<Rightarrow> string \<Rightarrow> int \<Rightarrow> rat" where
  "decimal_value d1 d2 k =
     (let n = of_nat (dec_value (d1 @ d2)) :: rat; e = k - int (length d2)
      in if 0 \<le> e then n * 10 ^ nat e else n / 10 ^ nat (- e))"

definition is_exp_mark :: "char \<Rightarrow> bool" where
  "is_exp_mark c \<longleftrightarrow> c = CHR ''e'' \<or> c = CHR ''E''"

definition str_unsigned_decimal :: "string \<Rightarrow> js_number option" where
  "str_unsigned_decimal s =
     (if s = ''Infinity'' then Some JInfinity
      else
        let m = takeWhile (\<lambda>c. \<not> is_exp_mark c) s; rest = dropWhile (\<lambda>c. \<not> is_exp_mark c) s
        in case parse_mantissa m of
             None \<Rightarrow> None
           | Some (d1, d2) \<Rightarrow>
               (case rest of
                  [] \<Rightarrow> Some (JNum (decimal_value d1 d2 0))
                | _ # ex \<Rightarrow> map_option (\<lambda>k. JNum (decimal_value d1 d2 k)) (parse_exponent ex)))"

definition str_decimal_literal :: "string \<Rightarrow> js_number option" where
  "str_decimal_literal t =
     (case t of
        [] \<Rightarrow> None
      | c # u \<Rightarrow>
          (if c = CHR ''+'' then str_unsigned_decimal u
           else if c = CHR ''-'' then map_option js_negate (str_unsigned_decimal u)
           else str_unsigned_decimal t))"

definition non_decimal_radix :: "char \<Rightarrow> nat option" where
  "non_decimal_radix c =
     (if c = CHR ''x'' \<or> c = CHR ''X'' then Some 16
      else if c = CHR ''o'' \<or> c = CHR ''O'' then Some 8
      else if c = CHR ''b'' \<or> c = CHR ''B'' then Some 2
      else None)"

definition str_numeric_literal :: "string \<Rightarrow> js_number option" where
  "str_numeric_literal t =
     (case t of
        c0 # c1 # ds \<Rightarrow>
          (case non_decimal_radix c1 of
             Some r \<Rightarrow>
               (if c0 = CHR ''0'' then map_option (\<lambda>n. JNum (of_nat n)) (parse_radix_int r ds)
                else str_decimal_literal t)
           | None \<Rightarrow> str_decimal_literal t)
      | _ \<Rightarrow> str_decimal_literal t)"

text \<open>
  \<open>Number(s)\<close> on a string (ECMAScript \<open>StringToNumber\<close>): white space is stripped, the
  empty string is \<open>0\<close>, a \<open>StringNumericLiteral\<close> has its value, anything else is
  \<open>NaN\<close>.
\<close>

definition js_string_to_number :: "string \<Rightarrow> js_number" where
  "js_string_to_number s =
     (let t = js_trim s
      in if t = [] then JNum 0
         else case str_numeric_literal t of Some v \<Rightarrow> v | None \<Rightarrow> JNaN)"

subsection \<open>Integer to string\<close>

text \<open>
  \<open>Number::toString\<close> on an integral value below \<open>10\<^sup>2\<^sup>1\<close>: its decimal digits, with
  a minus sign for a negative value (what a template literal \<open>`${n}`\<close> prints).
\<close>

fun nat_to_dec :: "nat \<Rightarrow> string" where
  "nat_to_dec n =
     (if n < 10 then [char_of (48 + n)] else nat_to_dec (n div 10) @ [char_of (48 + n mod 10)])"

definition js_int_to_string :: "int \<Rightarrow> string" where
  "js_int_to_string i = (if i < 0 then CHR ''-'' # nat_to_dec (nat (- i)) else nat_to_dec (nat i))"


text \<open>
  The characters a \<open>StringNumericLiteral\<close> can contain: digits and letters (as digits of
  some radix up to 36, which covers \<open>Infinity\<close> and the exponent marks), signs and the
  decimal point.
\<close>

definition numeric_char :: "char \<Rightarrow> bool" where
  "numeric_char c \<longleftrightarrow> digit_value 36 c \<noteq> None \<or> c = CHR ''+'' \<or> c = CHR ''-'' \<or> c = CHR ''.''"

declare nat_to_dec.simps [simp del]

subsection \<open>Math.round meets its contract\<close>

lemma js_round_bounds:
  "x - 1 / 2 < of_int (js_round x) \<and> of_int (js_round x) \<le> x + 1 / 2"
  unfolding js_round_def using floor_correct [of "x + 1 / 2"] by linarith

lemma js_round_mono: "x \<le> y \<Longrightarrow> js_round x \<le> js_round y"
  unfolding js_round_def by (intro floor_mono) simp

lemma js_round_of_int [simp]: "js_round (of_int k) = k"
  unfolding js_round_def by (simp add: floor_unique)

lemma rounds_to_js_round: "rounds_to x (js_round x)"
  unfolding rounds_to_def
proof
  fix k :: int
  let ?r = "js_round x"
  have b: "x - 1 / 2 < of_int ?r" "of_int ?r \<le> x + 1 / 2"
    using js_round_bounds [of x] by auto
  consider "k < ?r" | "k = ?r" | "?r < k" by linarith
  then show "\<bar>x - of_int ?r\<bar> < \<bar>x - of_int k\<bar> \<or>
             (\<bar>x - of_int ?r\<bar> = \<bar>x - of_int k\<bar> \<and> k \<le> ?r)"
  proof cases
    case 1
    then have "of_int k \<le> (of_int ?r - 1 :: rat)" by linarith
    with b show ?thesis by linarith
  next
    case 2
    then show ?thesis by simp
  next
    case 3
    then have "(of_int ?r + 1 :: rat) \<le> of_int k" by linarith
    with b show ?thesis by linarith
  qed
qed

lemma rounds_to_unique: "rounds_to x r \<Longrightarrow> rounds_to x r' \<Longrightarrow> r = r'"
  unfolding rounds_to_def by (metis antisym less_asym)

text \<open>
  \<open>Math.round\<close> as modelled meets its contract: an integer \<open>r\<close> is nearest to
  \<open>x\<close> with ties going up exactly when \<open>r = js_round x\<close>.
\<close>

lemma js_round_refines: "rounds_to x r \<longleftrightarrow> r = js_round x"
  using rounds_to_js_round rounds_to_unique by blast

theorem percent_bounds:
  assumes "0 \<le> p" and "p \<le> 1"
  shows "0 \<le> percent p \<and> percent p \<le> 100"
proof -
  have "js_round 0 \<le> js_round (p * 100)" "js_round (p * 100) \<le> js_round 100"
    using assms by (auto intro!: js_round_mono)
  moreover have "js_round 0 = 0" "js_round 100 = 100"
    using js_round_of_int [of 0] js_round_of_int [of 100] by simp_all
  ultimately show ?thesis by (simp add: percent_def)
qed

subsection \<open>Printing an integer and reading it back\<close>

lemma nat_to_dec_digits: "c \<in> set (nat_to_dec n) \<Longrightarrow> is_dec c"
proof (induction n rule: nat_to_dec.induct)
  case (1 n)
  have d: "is_dec (char_of (48 + k))" if "k < 10" for k :: nat
    using that by (simp add: is_dec_def)
  show ?case
  proof (cases "n < 10")
    case True
    with "1.prems" show ?thesis by (simp add: nat_to_dec.simps [of n] d)
  next
    case False
    with "1.prems" "1.IH" show ?thesis by (auto simp: nat_to_dec.simps [of n] d)
  qed
qed

lemma nat_to_dec_ne: "nat_to_dec n \<noteq> []"
  by (subst nat_to_dec.simps) simp

lemma dec_value_snoc: "dec_value (xs @ [c]) = dec_value xs * 10 + (of_char c - 48)"
  by (simp add: dec_value_def)

lemma dec_value_nat_to_dec: "dec_value (nat_to_dec n) = n"
proof (induction n rule: nat_to_dec.induct)
  case (1 n)
  show ?case
  proof (cases "n < 10")
    case True
    then show ?thesis by (simp add: nat_to_dec.simps [of n] dec_value_def)
  next
    case False
    then have "dec_value (nat_to_dec n) = dec_value (nat_to_dec (n div 10)) * 10 + n mod 10"
      by (simp add: nat_to_dec.simps [of n] dec_value_snoc)
    with False "1.IH" show ?thesis by simp
  qed
qed

lemma is_dec_not_ws: "is_dec c \<Longrightarrow> \<not> js_ws c"
  by (auto simp: is_dec_def js_ws_def)

lemma js_trim_no_ws: "\<forall>c \<in> set s. \<not> js_ws c \<Longrightarrow> js_trim s = s"
  by (simp add: js_trim_def dropWhile_all_not)

lemma not_is_dec_marks:
  "\<not> is_dec CHR ''e''" "\<not> is_dec CHR ''E''" "\<not> is_dec CHR ''+''" "\<not> is_dec CHR ''-''"
  "\<not> is_dec CHR ''.''" "\<not> is_dec CHR ''x''" "\<not> is_dec CHR ''X''" "\<not> is_dec CHR ''o''"
  "\<not> is_dec CHR ''O''" "\<not> is_dec CHR ''b''" "\<not> is_dec CHR ''B''" "\<not> is_dec CHR ''I''"
  by (simp_all add: is_dec_def)

lemma is_dec_not_marks:
  assumes "is_dec c"
  shows "\<not> is_exp_mark c \<and> c \<noteq> CHR ''+'' \<and> c \<noteq> CHR ''-'' \<and> c \<noteq> CHR ''.''
     \<and> non_decimal_radix c = None"
proof -
  have "c \<noteq> d" if "\<not> is_dec d" for d using assms that by blast
  with not_is_dec_marks show ?thesis
    unfolding is_exp_mark_def non_decimal_radix_def by metis
qed

lemma str_unsigned_decimal_digits:
  assumes "t \<noteq> []" and "\<forall>c \<in> set t. is_dec c"
  shows "str_unsigned_decimal t = Some (JNum (of_nat (dec_value t)))"
proof -
  from assms obtain c u where t: "t = c # u" by (cases t) auto
  with assms not_is_dec_marks(12) have inf: "t \<noteq> ''Infinity''" by auto
  have nm: "\<forall>c \<in> set t. \<not> is_exp_mark c"
    using assms is_dec_not_marks by blast
  have tw: "takeWhile (\<lambda>c. \<not> is_exp_mark c) t = t"
    using nm by (rule takeWhile_all)
  have dw: "dropWhile (\<lambda>c. \<not> is_exp_mark c) t = []"
    using nm by (rule dropWhile_all)
  have pm: "parse_mantissa t = Some (t, [])"
    using assms by (simp add: parse_mantissa_def takeWhile_all dropWhile_all)
  show ?thesis
    by (simp only: str_unsigned_decimal_def inf tw dw pm if_False Let_def option.case
        prod.case list.case) (simp add: decimal_value_def)
qed

lemma str_numeric_literal_digits:
  assumes "t \<noteq> []" and "\<forall>c \<in> set t. is_dec c"
  shows "str_numeric_literal t = Some (JNum (of_nat (dec_value t)))"
proof -
  from assms obtain c u where t: "t = c # u" by (cases t) auto
  have "str_numeric_literal t = str_decimal_literal t"
    using assms is_dec_not_marks by (auto simp: str_numeric_literal_def t split: list.split)
  also have "\<dots> = str_unsigned_decimal t"
    using assms is_dec_not_marks by (auto simp: str_decimal_literal_def t)
  finally show ?thesis using str_unsigned_decimal_digits [OF assms] by simp
qed

lemma str_numeric_literal_neg_digits:
  assumes "t \<noteq> []" and "\<forall>c \<in> set t. is_dec c"
  shows "str_numeric_literal (CHR ''-'' # t) = Some (JNum (- of_nat (dec_value t)))"
proof -
  from assms obtain c u where t: "t = c # u" by (cases t) auto
  have "non_decimal_radix c = None" using assms is_dec_not_marks t by auto
  then have "str_numeric_literal (CHR ''-'' # t) = str_decimal_literal (CHR ''-'' # t)"
    by (simp add: str_numeric_literal_def t)
  then show ?thesis
    using str_unsigned_decimal_digits [OF assms]
    by (simp add: str_decimal_literal_def js_negate_def)
qed

text \<open>
  Reading back an integer printed in decimal gives the integer: \<open>Number(String(i))\<close>
  is \<open>i\<close>, so a subject reference that is a plain decimal id becomes that id.
\<close>

lemma js_string_to_number_int_to_string:
  "js_string_to_number (js_int_to_string i) = JNum (of_int i)"
proof (cases "i < 0")
  case True
  let ?t = "nat_to_dec (nat (- i))"
  have ds: "?t \<noteq> []" "\<forall>c \<in> set ?t. is_dec c"
    using nat_to_dec_ne nat_to_dec_digits by auto
  have "\<not> js_ws CHR ''-''" by (simp add: js_ws_def)
  with ds have "js_trim (CHR ''-'' # ?t) = CHR ''-'' # ?t"
    by (intro js_trim_no_ws) (auto dest: is_dec_not_ws)
  with True ds show ?thesis
    by (simp add: js_string_to_number_def js_int_to_string_def str_numeric_literal_neg_digits
        dec_value_nat_to_dec)
next
  case False
  let ?t = "nat_to_dec (nat i)"
  have ds: "?t \<noteq> []" "\<forall>c \<in> set ?t. is_dec c"
    using nat_to_dec_ne nat_to_dec_digits by auto
  then have "js_trim ?t = ?t" by (intro js_trim_no_ws) (auto dest: is_dec_not_ws)
  with False ds show ?thesis
    by (simp add: js_string_to_number_def js_int_to_string_def str_numeric_literal_digits
        dec_value_nat_to_dec)
qed

subsection \<open>Strings that are not numeric literals\<close>

lemma digit_value_numeric: "digit_value r c = Some d \<Longrightarrow> r \<le> 36 \<Longrightarrow> numeric_char c"
  by (auto simp: digit_value_def numeric_char_def Let_def split: if_splits)

lemma radix_digits_numeric:
  "radix_digits r acc s = Some n \<Longrightarrow> r \<le> 36 \<Longrightarrow> c \<in> set s \<Longrightarrow> numeric_char c"
  by (induction r acc s rule: radix_digits.induct)
     (auto split: option.splits dest: digit_value_numeric)

lemma parse_radix_int_numeric:
  "parse_radix_int r s = Some n \<Longrightarrow> r \<le> 36 \<Longrightarrow> c \<in> set s \<Longrightarrow> numeric_char c"
  unfolding parse_radix_int_def by (auto split: if_splits dest: radix_digits_numeric)

lemma is_dec_numeric:
  assumes "is_dec c"
  shows "numeric_char c"
proof -
  from assms have "48 \<le> (of_char c :: nat)" "(of_char c :: nat) \<le> 57"
    by (simp_all add: is_dec_def Let_def)
  then have "digit_value 36 c = Some (of_char c - 48)"
    by (simp add: digit_value_def Let_def)
  then show ?thesis by (simp add: numeric_char_def)
qed

lemma parse_exponent_numeric:
  "parse_exponent e = Some k \<Longrightarrow> c \<in> set e \<Longrightarrow> numeric_char c"
  unfolding parse_exponent_def
  by (auto simp: numeric_char_def split: list.splits if_splits dest: parse_radix_int_numeric)

lemma parse_mantissa_numeric:
  assumes "parse_mantissa m = Some p" and "c \<in> set m"
  shows "numeric_char c"
proof -
  have m: "m = takeWhile is_dec m @ dropWhile is_dec m" by simp
  have "\<forall>x \<in> set (takeWhile is_dec m). is_dec x" by (auto dest: set_takeWhileD)
  moreover have "\<forall>x \<in> set (dropWhile is_dec m). is_dec x \<or> x = CHR ''.''"
    using assms(1) by (auto simp: parse_mantissa_def Let_def list_all_iff
        split: list.splits if_splits dest: set_dropWhileD)
  then have "\<forall>x \<in> set (dropWhile is_dec m). numeric_char x"
    by (metis is_dec_numeric numeric_char_def)
  ultimately show ?thesis using assms(2) m
    by (metis Un_iff is_dec_numeric set_append)
qed

lemma exp_mark_numeric: "is_exp_mark c \<Longrightarrow> numeric_char c"
  by (auto simp: is_exp_mark_def numeric_char_def digit_value_def)

lemma str_unsigned_decimal_numeric:
  assumes "str_unsigned_decimal s = Some v" and "c \<in> set s"
  shows "numeric_char c"
proof (cases "s = ''Infinity''")
  case True
  with assms(2) show ?thesis by (auto simp: numeric_char_def digit_value_def)
next
  case False
  let ?m = "takeWhile (\<lambda>c. \<not> is_exp_mark c) s" and ?r = "dropWhile (\<lambda>c. \<not> is_exp_mark c) s"
  from False assms(1) obtain p where pm: "parse_mantissa ?m = Some p"
    by (auto simp: str_unsigned_decimal_def Let_def split: option.splits)
  have r: "\<forall>x \<in> set ?r. numeric_char x"
  proof (cases ?r)
    case Nil
    show ?thesis unfolding Nil by simp
  next
    case (Cons x ex)
    then have "is_exp_mark x" using hd_dropWhile [of "\<lambda>c. \<not> is_exp_mark c" s] by simp
    moreover from False assms(1) pm Cons obtain k where "parse_exponent ex = Some k"
      by (cases p) (auto simp: str_unsigned_decimal_def Let_def split: option.splits)
    ultimately show ?thesis
      using Cons by (auto intro: exp_mark_numeric dest: parse_exponent_numeric)
  qed
  have "s = ?m @ ?r" by simp
  with assms(2) pm r show ?thesis
    by (metis Un_iff parse_mantissa_numeric set_append)
qed

lemma numeric_literal_chars:
  "numeric_char CHR ''+''" "numeric_char CHR ''-''" "numeric_char CHR ''0''"
  "numeric_char CHR ''x''" "numeric_char CHR ''X''" "numeric_char CHR ''o''"
  "numeric_char CHR ''O''" "numeric_char CHR ''b''" "numeric_char CHR ''B''"
  by (simp_all add: numeric_char_def digit_value_def)

lemma non_decimal_radix_Some:
  assumes "non_decimal_radix c = Some r"
  shows "r \<le> 16 \<and> numeric_char c"
proof -
  from assms have "(c = CHR ''x'' \<or> c = CHR ''X'') \<and> r = 16 \<or> (c = CHR ''o'' \<or> c = CHR ''O'') \<and> r = 8
      \<or> (c = CHR ''b'' \<or> c = CHR ''B'') \<and> r = 2"
    unfolding non_decimal_radix_def by (simp split: if_splits)
  then show ?thesis using numeric_literal_chars by fastforce
qed

lemma str_decimal_literal_numeric:
  assumes "str_decimal_literal t = Some v" and "c \<in> set t"
  shows "numeric_char c"
proof (cases t)
  case Nil
  with assms show ?thesis by simp
next
  case (Cons x u)
  consider "x = CHR ''+''" | "x = CHR ''-''" | "x \<noteq> CHR ''+'' \<and> x \<noteq> CHR ''-''" by blast
  then show ?thesis
  proof cases
    case 1
    with assms(1) Cons obtain w where "str_unsigned_decimal u = Some w"
      by (auto simp: str_decimal_literal_def)
    with assms(2) Cons 1 numeric_literal_chars(1) show ?thesis
      by (auto dest: str_unsigned_decimal_numeric)
  next
    case 2
    with assms(1) Cons obtain w where "str_unsigned_decimal u = Some w"
      by (auto simp: str_decimal_literal_def)
    with assms(2) Cons 2 numeric_literal_chars(2) show ?thesis
      by (auto dest: str_unsigned_decimal_numeric)
  next
    case 3
    with assms Cons show ?thesis
      by (auto simp: str_decimal_literal_def dest: str_unsigned_decimal_numeric)
  qed
qed

lemma str_numeric_literal_numeric:
  assumes "str_numeric_literal t = Some v" and "c \<in> set t"
  shows "numeric_char c"
proof (cases "\<exists>c1 ds r. t = CHR ''0'' # c1 # ds \<and> non_decimal_radix c1 = Some r")
  case True
  then obtain c1 ds r where t: "t = CHR ''0'' # c1 # ds" and r: "non_decimal_radix c1 = Some r"
    by blast
  from r have "r \<le> 36" and "numeric_char c1" using non_decimal_radix_Some by fastforce+
  moreover from assms(1) t r obtain n where "parse_radix_int r ds = Some n"
    by (auto simp: str_numeric_literal_def)
  ultimately show ?thesis
    using assms(2) t numeric_literal_chars(3) by (auto dest: parse_radix_int_numeric)
next
  case False
  then have "str_numeric_literal t = str_decimal_literal t"
    unfolding str_numeric_literal_def by (auto split: list.split option.split)
  with assms show ?thesis by (metis str_decimal_literal_numeric)
qed

lemma in_set_js_trim: "x \<in> set s \<Longrightarrow> \<not> js_ws x \<Longrightarrow> x \<in> set (js_trim s)"
  unfolding js_trim_def by (metis in_set_dropWhile set_rev)

theorem js_string_to_number_stray_char:
  assumes "c \<in> set s" and "\<not> js_ws c" and "\<not> numeric_char c"
  shows "js_string_to_number s = JNaN"
proof -
  from assms have c: "c \<in> set (js_trim s)" by (blast intro: in_set_js_trim)
  then have "js_trim s \<noteq> []" by auto
  moreover have "str_numeric_literal (js_trim s) = None"
    using c assms(3) str_numeric_literal_numeric by (cases "str_numeric_literal (js_trim s)") blast+
  ultimately show ?thesis by (simp add: js_string_to_number_def)
qed

text \<open>
  A string containing \<open>/\<close> is not a numeric literal: \<open>Number\<close> gives \<open>NaN\<close>.
  A FHIR reference of the usual form \<open>Patient/123\<close> therefore becomes the id
  \<open>NaN\<close> of the result entry.
\<close>

lemma js_string_to_number_slash: "CHR ''/'' \<in> set s \<Longrightarrow> js_string_to_number s = JNaN"
proof -
  have "\<not> js_ws CHR ''/''" by (simp add: js_ws_def)
  moreover have "\<not> numeric_char CHR ''/''" by (simp add: numeric_char_def digit_value_def)
  ultimately show "CHR ''/'' \<in> set s \<Longrightarrow> js_string_to_number s = JNaN"
    by (rule js_string_to_number_stray_char [rotated])
qed

end
