(* ===== verification/Fhir.thy ===== *)
theory Fhir
  imports JsNumber
begin

text \<open>
  The data the page exchanges with the prediction service and shows: the FHIR-shaped
  response (\<open>FHIRData\<close>, \<open>Datum\<close>, \<open>Prediction\<close> of \<open>interfaces/values.interface\<close>),
  the view entry \<open>PredictionResult\<close> (\<open>interfaces/predictionResult.interface\<close>) and the
  chart data sets of \<open>ng2-charts\<close>. The interface files are not among the sources, so
  their shapes are taken from the specification (section 6) and from the way
  \<open>home.page.ts\<close> reads them. A field that the specification gives only to some entries
  (\<open>outcome\<close>, present on the summary entry) is an \<open>option\<close>: reading through it when
  it is absent is a \<open>TypeError\<close>.
\<close>

subsection \<open>The response envelope\<close>

record coding =
  code :: string

record outcome =
  coding :: "coding list"

record prediction =
  rationale :: string
  probabilityDecimal :: rat
  outcome :: "outcome option"

record subject =
  display :: string
  reference :: string

record datum =
  subject :: subject
  prediction :: "prediction list"

record fhir_data =
  data :: "datum list"

subsection \<open>The view model\<close>

text \<open>The six rounded percentages, by model and outcome class.\<close>

record valeurs_predictions =
  rfAmbulatoire :: int
  rfHospitalise :: int
  nnAmbulatoire :: int
  nnHospitalise :: int
  gbtAmbulatoire :: int
  gbtHospitalise :: int

record prediction_result =
  idPatient :: js_number
  nomPatient :: string
  summary :: "prediction list"
  etatPrediction :: string
  pourcentage :: int
  tableauPredictionsBrut :: "prediction list"
  valeursPredictions :: valeurs_predictions

text \<open>A chart data set: its series of values and its label (\<open>ChartDataSets\<close>).\<close>

record chart_dataset =
  ds_data :: "int list"
  ds_label :: string

end
