(* ===== verification/ResultMapper.thy ===== *)
theory ResultMapper
  imports Fhir
begin

text \<open>
  The result mapper: the function passed to \<open>map\<close> in \<open>getPredictionResults\<close>
  (\<open>home.page.ts\<close>, lines 133--179). It reads the first record of the response, selects
  the summary entry with \<open>filter(...)[0]\<close>, rounds the seven probabilities, appends one
  \<open>PredictionResult\<close> to \<open>this.predictionResult\<close> and rebuilds \<open>this.chartsData\<close>
  from entry 0 of that list.

  The callback mutates two fields of the page; the model takes their old values and
  returns the new ones, or the \<open>TypeError\<close> the callback throws. Every read that can
  throw happens before the \<open>push\<close> (the object literal is evaluated first), and the chart
  reads entry 0 of a list that the push has just made non-empty, so a throw leaves both
  fields as they were: the model returns \<open>Inl\<close> and the caller keeps the old state.
\<close>

subsection \<open>Definitions\<close>

text \<open>\<open>predictions.filter(prediction => prediction.rationale === 'summary')\<close>\<close>

definition summary_of :: "prediction list \<Rightarrow> prediction list" where
  "summary_of ps = filter (\<lambda>p. rationale p = ''summary'') ps"

text \<open>\<open>Math.round(predictions[i].probabilityDecimal * 100)\<close>\<close>

definition percent_at :: "prediction list \<Rightarrow> nat \<Rightarrow> int js_result" where
  "percent_at ps i =
     js_bind (js_get (js_at ps i) ''probabilityDecimal'') (\<lambda>p. Inr (percent (probabilityDecimal p)))"

text \<open>The object literal \<open>valeursPredictions\<close>, its six fields read in source order.\<close>

definition valeurs_of :: "prediction list \<Rightarrow> valeurs_predictions js_result" where
  "valeurs_of ps =
     js_bind (percent_at ps 0) (\<lambda>rfA.
     js_bind (percent_at ps 1) (\<lambda>rfH.
     js_bind (percent_at ps 2) (\<lambda>nnA.
     js_bind (percent_at ps 3) (\<lambda>nnH.
     js_bind (percent_at ps 4) (\<lambda>gbtA.
     js_bind (percent_at ps 5) (\<lambda>gbtH.
       Inr \<lparr>rfAmbulatoire = rfA, rfHospitalise = rfH, nnAmbulatoire = nnA,
            nnHospitalise = nnH, gbtAmbulatoire = gbtA, gbtHospitalise = gbtH\<rparr>))))))"

text \<open>\<open>summary[0].outcome.coding[0].code\<close>\<close>

definition outcome_code :: "prediction \<Rightarrow> string js_result" where
  "outcome_code s =
     js_bind (js_get (outcome s) ''coding'') (\<lambda>oc.
     js_bind (js_get (js_at (coding oc) 0) ''code'') (\<lambda>c. Inr (code c)))"

text \<open>Lines 137--163 up to the \<open>push\<close>: the new entry, or the first \<open>TypeError\<close>.\<close>

definition build_result :: "fhir_data \<Rightarrow> prediction_result js_result" where
  "build_result values =
     js_bind (js_get (js_at (data values) 0) ''subject'') (\<lambda>d.
       let userName = display (subject d);
           idPat = reference (subject d);
           predictions = prediction d;
           summ = summary_of predictions
       in js_bind (js_get (js_at summ 0) ''probabilityDecimal'') (\<lambda>s0.
          let pourc = percent (probabilityDecimal s0)
          in js_bind (outcome_code s0) (\<lambda>etat.
             js_bind (valeurs_of predictions) (\<lambda>vals.
               Inr \<lparr>idPatient = js_string_to_number idPat, nomPatient = userName,
                    summary = summ, etatPrediction = etat, pourcentage = pourc,
                    tableauPredictionsBrut = predictions, valeursPredictions = vals\<rparr>))))"

text \<open>Lines 166--178: the two series, read from one entry of the result list.\<close>

definition charts_of :: "prediction_result \<Rightarrow> chart_dataset list" where
  "charts_of r =
     (let v = valeursPredictions r
      in [\<lparr>ds_data = [rfAmbulatoire v, nnAmbulatoire v, gbtAmbulatoire v],
           ds_label = ''Soins Ambulatoire''\<rparr>,
          \<lparr>ds_data = [rfHospitalise v, nnHospitalise v, gbtHospitalise v],
           ds_label = ''Hospitalisation''\<rparr>])"

text \<open>
  The whole callback on the two fields it writes: push the new entry, then build the
  chart from entry 0 of the list.
\<close>

definition map_values ::
  "fhir_data \<Rightarrow> prediction_result list \<Rightarrow> (prediction_result list \<times> chart_dataset list) js_result"
where
  "map_values values results =
     js_bind (build_result values) (\<lambda>r.
       let results' = js_push results r in Inr (results', charts_of (results' ! 0)))"


text \<open>
  The envelopes on which the callback does not throw: a first record, at least six
  prediction entries, and a summary entry whose outcome has a first coding. This is the
  shape section 6 of the specification describes.
\<close>

definition wf_envelope :: "fhir_data \<Rightarrow> bool" where
  "wf_envelope v \<longleftrightarrow>
     (case data v of
        [] \<Rightarrow> False
      | d # _ \<Rightarrow>
          6 \<le> length (prediction d) \<and>
          (case summary_of (prediction d) of
             [] \<Rightarrow> False
           | s0 # _ \<Rightarrow> (case outcome s0 of None \<Rightarrow> False | Some oc \<Rightarrow> coding oc \<noteq> [])))"

text \<open>
  The example of section 8 of the specification: six model entries with the
  probabilities 0.81, 0.19, 0.55, 0.45, 0.63, 0.37 in positional order, then the summary.
\<close>

definition example_predictions :: "prediction list" where
  "example_predictions =
     [\<lparr>rationale = ''rf'', probabilityDecimal = 81 / 100, outcome = None\<rparr>,
      \<lparr>rationale = ''rf'', probabilityDecimal = 19 / 100, outcome = None\<rparr>,
      \<lparr>rationale = ''nn'', probabilityDecimal = 55 / 100, outcome = None\<rparr>,
      \<lparr>rationale = ''nn'', probabilityDecimal = 45 / 100, outcome = None\<rparr>,
      \<lparr>rationale = ''gbt'', probabilityDecimal = 63 / 100, outcome = None\<rparr>,
      \<lparr>rationale = ''gbt'', probabilityDecimal = 37 / 100, outcome = None\<rparr>,
      \<lparr>rationale = ''summary'', probabilityDecimal = 7 / 10,
       outcome = Some \<lparr>coding = [\<lparr>code = ''ambulatoire''\<rparr>]\<rparr>\<rparr>]"

definition example_envelope :: fhir_data where
  "example_envelope =
     \<lparr>data = [\<lparr>subject = \<lparr>display = ''Jean Dupont'', reference = ''42''\<rparr>,
               prediction = example_predictions\<rparr>]\<rparr>"

text \<open>
  The entry the callback builds from the example, two envelopes on which it throws (no
  summary entry; the summary but only five entries) and an earlier entry with other values.
\<close>

text \<open>The same response with a subject reference in the FHIR form \<open>Patient/42\<close>.\<close>

definition example_fhir_envelope :: fhir_data where
  "example_fhir_envelope =
     \<lparr>data = [\<lparr>subject = \<lparr>display = ''Jean Dupont'', reference = ''Patient/42''\<rparr>,
               prediction = example_predictions\<rparr>]\<rparr>"

definition example_result :: prediction_result where
  "example_result =
     \<lparr>idPatient = JNum 42, nomPatient = ''Jean Dupont'',
      summary = [last example_predictions], etatPrediction = ''ambulatoire'', pourcentage = 70,
      tableauPredictionsBrut = example_predictions,
      valeursPredictions =
        \<lparr>rfAmbulatoire = 81, rfHospitalise = 19, nnAmbulatoire = 55, nnHospitalise = 45,
         gbtAmbulatoire = 63, gbtHospitalise = 37\<rparr>\<rparr>"

definition example_no_summary :: fhir_data where
  "example_no_summary =
     \<lparr>data = [\<lparr>subject = \<lparr>display = ''Jean Dupont'', reference = ''42''\<rparr>,
               prediction = take 6 example_predictions\<rparr>]\<rparr>"

definition example_short :: fhir_data where
  "example_short =
     \<lparr>data = [\<lparr>subject = \<lparr>display = ''Jean Dupont'', reference = ''42''\<rparr>,
               prediction = drop 2 example_predictions\<rparr>]\<rparr>"

definition example_old_result :: prediction_result where
  "example_old_result =
     example_result\<lparr>valeursPredictions :=
       \<lparr>rfAmbulatoire = 10, rfHospitalise = 90, nnAmbulatoire = 20, nnHospitalise = 80,
        gbtAmbulatoire = 30, gbtHospitalise = 70\<rparr>\<rparr>"

subsection \<open>The callback's reads\<close>

lemma percent_at_eq:
  "percent_at ps i =
     (if i < length ps then Inr (percent (probabilityDecimal (ps ! i)))
      else Inl (TypeError ''probabilityDecimal''))"
  by (simp add: percent_at_def js_at_def)

lemma valeurs_of_ok:
  assumes "6 \<le> length ps"
  shows "valeurs_of ps =
    Inr \<lparr>rfAmbulatoire = percent (probabilityDecimal (ps ! 0)),
         rfHospitalise = percent (probabilityDecimal (ps ! 1)),
         nnAmbulatoire = percent (probabilityDecimal (ps ! 2)),
         nnHospitalise = percent (probabilityDecimal (ps ! 3)),
         gbtAmbulatoire = percent (probabilityDecimal (ps ! 4)),
         gbtHospitalise = percent (probabilityDecimal (ps ! 5))\<rparr>"
proof -
  from assms have "0 < length ps" "1 < length ps" "2 < length ps" "3 < length ps"
    "4 < length ps" "5 < length ps" by linarith+
  then show ?thesis by (simp add: valeurs_of_def percent_at_eq)
qed

lemma valeurs_of_short:
  assumes "length ps < 6"
  shows "valeurs_of ps = Inl (TypeError ''probabilityDecimal'')"
  using assms by (simp add: valeurs_of_def percent_at_eq)

lemma valeurs_of_Inr_iff: "(\<exists>x. valeurs_of ps = Inr x) \<longleftrightarrow> 6 \<le> length ps"
  using valeurs_of_ok [of ps] valeurs_of_short [of ps] by fastforce

lemma outcome_code_eq:
  "outcome_code s =
     (case outcome s of
        None \<Rightarrow> Inl (TypeError ''coding'')
      | Some oc \<Rightarrow> (case coding oc of [] \<Rightarrow> Inl (TypeError ''code'') | c # _ \<Rightarrow> Inr (code c)))"
  by (simp add: outcome_code_def split: option.split list.split)

lemma build_result_Inr_iff: "(\<exists>r. build_result v = Inr r) \<longleftrightarrow> wf_envelope v"
  by (auto simp: build_result_def wf_envelope_def outcome_code_eq Let_def
        js_bind_eq_Inr_iff valeurs_of_Inr_iff split: list.splits option.splits)


lemma build_result_eq:
  assumes "data v = d # ds" and "summary_of (prediction d) = s0 # ss"
    and "outcome s0 = Some oc" and "coding oc = c # cs" and "6 \<le> length (prediction d)"
  shows "build_result v =
    Inr \<lparr>idPatient = js_string_to_number (reference (subject d)),
         nomPatient = display (subject d),
         summary = s0 # ss,
         etatPrediction = code c,
         pourcentage = percent (probabilityDecimal s0),
         tableauPredictionsBrut = prediction d,
         valeursPredictions =
           \<lparr>rfAmbulatoire = percent (probabilityDecimal (prediction d ! 0)),
            rfHospitalise = percent (probabilityDecimal (prediction d ! 1)),
            nnAmbulatoire = percent (probabilityDecimal (prediction d ! 2)),
            nnHospitalise = percent (probabilityDecimal (prediction d ! 3)),
            gbtAmbulatoire = percent (probabilityDecimal (prediction d ! 4)),
            gbtHospitalise = percent (probabilityDecimal (prediction d ! 5))\<rparr>\<rparr>"
  using assms by (simp add: build_result_def outcome_code_eq valeurs_of_ok Let_def)

lemma map_values_eq:
  "map_values v rs =
     (case build_result v of
        Inl e \<Rightarrow> Inl e
      | Inr r \<Rightarrow> Inr (js_push rs r, charts_of (js_push rs r ! 0)))"
  by (simp add: map_values_def js_bind_def Let_def split: sum.split)

lemma map_values_first:
  assumes "build_result v = Inr r"
  shows "map_values v [] = Inr ([r], charts_of r)"
  using assms by (simp add: map_values_eq)

lemma charts_of_values:
  "set (concat (map ds_data (charts_of r))) =
     {rfAmbulatoire (valeursPredictions r), nnAmbulatoire (valeursPredictions r),
      gbtAmbulatoire (valeursPredictions r), rfHospitalise (valeursPredictions r),
      nnHospitalise (valeursPredictions r), gbtHospitalise (valeursPredictions r)}"
  by (auto simp: charts_of_def Let_def)

lemma build_result_parts:
  assumes "build_result v = Inr r"
  shows "valeurs_of (tableauPredictionsBrut r) = Inr (valeursPredictions r) \<and> summary r \<noteq> [] \<and>
         set (summary r) \<subseteq> set (tableauPredictionsBrut r) \<and>
         pourcentage r = percent (probabilityDecimal (hd (summary r)))"
  using assms
  by (auto simp: build_result_def Let_def js_bind_eq_Inr_iff js_get_eq_Inr_iff summary_of_def
      js_at_def hd_conv_nth split: if_splits)

lemma build_result_idPatient:
  assumes "build_result v = Inr r"
  shows "data v \<noteq> [] \<and> idPatient r = js_string_to_number (reference (subject (data v ! 0)))"
  using assms
  by (auto simp: build_result_def Let_def js_bind_eq_Inr_iff js_get_eq_Inr_iff js_at_def
      split: if_splits)

lemma valeurs_of_bounded:
  assumes "valeurs_of ps = Inr vals"
    and "\<forall>p \<in> set ps. 0 \<le> probabilityDecimal p \<and> probabilityDecimal p \<le> 1"
  shows "\<forall>x \<in> {rfAmbulatoire vals, nnAmbulatoire vals, gbtAmbulatoire vals, rfHospitalise vals,
                 nnHospitalise vals, gbtHospitalise vals}. 0 \<le> x \<and> x \<le> 100"
proof -
  from assms(1) have l: "6 \<le> length ps" using valeurs_of_Inr_iff by blast
  then have "ps ! i \<in> set ps" if "i < 6" for i using that by (auto intro!: nth_mem)
  then have b: "0 \<le> percent (probabilityDecimal (ps ! i)) \<and> percent (probabilityDecimal (ps ! i)) \<le> 100"
    if "i < 6" for i using that assms(2) percent_bounds by blast
  from assms(1) valeurs_of_ok [OF l] show ?thesis
    using b [of 0] b [of 1] b [of 2] b [of 3] b [of 4] b [of 5] by auto
qed

lemma build_example: "build_result example_envelope = Inr example_result"
  by code_simp

subsection \<open>Properties of the callback\<close>

text \<open>
  C1. The callback's outcome on every branch: each malformed shape throws the
  \<open>TypeError\<close> of the first property read that meets \<open>undefined\<close>, in source order
  (\<open>subject\<close>, the summary's \<open>probabilityDecimal\<close>, \<open>coding\<close>, \<open>code\<close>, a
  positional \<open>probabilityDecimal\<close>); otherwise the entry holds the patient's name, the
  parsed id, the summary list, the outcome code, the rounded headline percentage, the raw
  predictions, and \<open>round(p\<^sub>i * 100)\<close> of the entries at positions 0 to 5.
\<close>

theorem build_result_cases:
  "build_result v =
     (case data v of
        [] \<Rightarrow> Inl (TypeError ''subject'')
      | d # _ \<Rightarrow>
          (case summary_of (prediction d) of
             [] \<Rightarrow> Inl (TypeError ''probabilityDecimal'')
           | s0 # _ \<Rightarrow>
               (case outcome s0 of
                  None \<Rightarrow> Inl (TypeError ''coding'')
                | Some oc \<Rightarrow>
                    (case coding oc of
                       [] \<Rightarrow> Inl (TypeError ''code'')
                     | c # _ \<Rightarrow>
                         (if length (prediction d) < 6 then Inl (TypeError ''probabilityDecimal'')
                          else Inr \<lparr>idPatient = js_string_to_number (reference (subject d)),
                                    nomPatient = display (subject d),
                                    summary = summary_of (prediction d),
                                    etatPrediction = code c,
                                    pourcentage = percent (probabilityDecimal s0),
                                    tableauPredictionsBrut = prediction d,
                                    valeursPredictions =
                                      \<lparr>rfAmbulatoire = percent (probabilityDecimal (prediction d ! 0)),
                                       rfHospitalise = percent (probabilityDecimal (prediction d ! 1)),
                                       nnAmbulatoire = percent (probabilityDecimal (prediction d ! 2)),
                                       nnHospitalise = percent (probabilityDecimal (prediction d ! 3)),
                                       gbtAmbulatoire = percent (probabilityDecimal (prediction d ! 4)),
                                       gbtHospitalise = percent (probabilityDecimal (prediction d ! 5))\<rparr>\<rparr>)))))"
  by (auto simp: build_result_def outcome_code_eq valeurs_of_ok valeurs_of_short Let_def
      split: list.split option.split)

text \<open>
  C2. The callback fails (and so leaves the page's fields unchanged) exactly when the
  envelope is not of the shape the specification describes.
\<close>

theorem map_values_fails_iff: "isl (map_values v rs) \<longleftrightarrow> \<not> wf_envelope v"
  by (cases "build_result v") (auto simp: map_values_eq simp flip: build_result_Inr_iff)

text \<open>
  C4. A successful response appends its entry to the result list, but the chart is
  rebuilt from entry 0 of the list, not from the entry just appended: when the list
  already holds a result, the new entry is pushed and the chart keeps showing the earlier
  result.
\<close>

theorem map_values_chart_stale:
  assumes "rs \<noteq> []" and "map_values v rs = Inr (rs', ch)"
  shows "\<exists>r. build_result v = Inr r \<and> rs' = js_push rs r \<and> ch = charts_of (rs ! 0)"
  using assms by (auto simp: map_values_eq split: sum.splits)

theorem map_values_chart_stale_witness:
  "[example_old_result] \<noteq> [] \<and>
   map_values example_envelope [example_old_result] =
     Inr ([example_old_result, example_result], charts_of example_old_result) \<and>
   (\<exists>r. build_result example_envelope = Inr r \<and>
      [example_old_result, example_result] = js_push [example_old_result] r \<and>
      charts_of example_old_result = charts_of ([example_old_result] ! 0)) \<and>
   charts_of example_old_result \<noteq> charts_of example_result"
proof -
  have e: "map_values example_envelope [example_old_result] =
             Inr ([example_old_result, example_result], charts_of example_old_result)"
    by (simp add: map_values_eq build_example js_push_def)
  have "\<exists>r. build_result example_envelope = Inr r \<and>
      [example_old_result, example_result] = js_push [example_old_result] r \<and>
      charts_of example_old_result = charts_of ([example_old_result] ! 0)"
    using map_values_chart_stale [OF _ e] by simp
  moreover have "charts_of example_old_result \<noteq> charts_of example_result"
    by (simp add: charts_of_def example_old_result_def example_result_def)
  ultimately show ?thesis using e by simp
qed

text \<open>
  C6. An envelope without an entry tagged \<open>summary\<close> makes the callback throw at
  \<open>summary[0].probabilityDecimal\<close>; no other entry is taken in its place.
\<close>

theorem map_values_no_summary:
  assumes "data v = d # ds" and "summary_of (prediction d) = []"
  shows "map_values v rs = Inl (TypeError ''probabilityDecimal'')"
  using assms by (simp add: map_values_eq build_result_def)

theorem map_values_no_summary_witness:
  "data example_no_summary = hd (data example_no_summary) # [] \<and>
   summary_of (prediction (hd (data example_no_summary))) = [] \<and>
   map_values example_no_summary [] = Inl (TypeError ''probabilityDecimal'')"
proof -
  have h: "data example_no_summary = hd (data example_no_summary) # []"
    "summary_of (prediction (hd (data example_no_summary))) = []"
    by (simp_all add: example_no_summary_def example_predictions_def summary_of_def)
  show ?thesis using map_values_no_summary [OF h] h by simp
qed

text \<open>
  C7. An envelope whose first record has fewer than six prediction entries makes the
  callback throw: no entry with partial percentages is produced.
\<close>

theorem map_values_short:
  assumes "length (prediction (hd (data v))) < 6"
  shows "isl (map_values v rs)"
proof -
  have "\<not> wf_envelope v" using assms by (auto simp: wf_envelope_def split: list.splits)
  then have "\<not> (\<exists>r. build_result v = Inr r)" by (simp add: build_result_Inr_iff)
  then show ?thesis by (cases "build_result v") (auto simp: map_values_eq)
qed

theorem map_values_short_witness:
  "length (prediction (hd (data example_short))) < 6 \<and> isl (map_values example_short [])"
proof -
  have h: "length (prediction (hd (data example_short))) < 6"
    by (simp add: example_short_def example_predictions_def)
  show ?thesis using map_values_short [OF h] h by simp
qed

text \<open>
  C8. The example of the specification: probabilities 0.81, 0.19, 0.55, 0.45, 0.63, 0.37 at
  positions 0 to 5 give the ambulatory series [81, 55, 63] and the hospitalisation series
  [19, 45, 37], on the first response.
\<close>

theorem chart_example:
  assumes "data v = d # ds"
    and "map probabilityDecimal (take 6 (prediction d)) =
           [81 / 100, 19 / 100, 55 / 100, 45 / 100, 63 / 100, 37 / 100]"
    and "summary_of (prediction d) = s0 # ss" and "outcome s0 = Some oc" and "coding oc = c # cs"
  shows "\<exists>rs. map_values v [] =
           Inr (rs, [\<lparr>ds_data = [81, 55, 63], ds_label = ''Soins Ambulatoire''\<rparr>,
                     \<lparr>ds_data = [19, 45, 37], ds_label = ''Hospitalisation''\<rparr>])"
proof -
  have "length (map probabilityDecimal (take 6 (prediction d))) = 6"
    unfolding assms(2) by simp
  then have l: "6 \<le> length (prediction d)" by simp
  have m: "map percent [81 / 100, 19 / 100, 55 / 100, 45 / 100, 63 / 100, 37 / 100] =
             [81, 19, 55, 45, 63, 37]"
    by code_simp
  have q: "percent (probabilityDecimal (prediction d ! i)) = [81, 19, 55, 45, 63, 37] ! i"
    if "i < 6" for i
  proof -
    have "map percent (map probabilityDecimal (take 6 (prediction d))) = [81, 19, 55, 45, 63, 37]"
      by (simp only: assms(2) m)
    then have "map percent (map probabilityDecimal (take 6 (prediction d))) ! i =
               [81, 19, 55, 45, 63, 37] ! i" by (rule arg_cong)
    with that l show ?thesis by simp
  qed
  from map_values_first [OF build_result_eq [OF assms(1,3,4,5) l]] show ?thesis
    using q [of 0] q [of "Suc 0"] q [of 2] q [of 3] q [of 4] q [of 5]
    by (simp add: charts_of_def)
qed

theorem chart_example_witness:
  "\<exists>rs. map_values example_envelope [] =
     Inr (rs, [\<lparr>ds_data = [81, 55, 63], ds_label = ''Soins Ambulatoire''\<rparr>,
               \<lparr>ds_data = [19, 45, 37], ds_label = ''Hospitalisation''\<rparr>])"
proof (rule chart_example)
  show "data example_envelope = hd (data example_envelope) # []"
    by (simp add: example_envelope_def)
  show "map probabilityDecimal (take 6 (prediction (hd (data example_envelope)))) =
          [81 / 100, 19 / 100, 55 / 100, 45 / 100, 63 / 100, 37 / 100]"
    by (simp add: example_envelope_def example_predictions_def)
  show "summary_of (prediction (hd (data example_envelope))) = last example_predictions # []"
    by (simp add: example_envelope_def example_predictions_def summary_of_def)
  show "outcome (last example_predictions) = Some \<lparr>coding = [\<lparr>code = ''ambulatoire''\<rparr>]\<rparr>"
    by (simp add: example_predictions_def)
  show "coding \<lparr>coding = [\<lparr>code = ''ambulatoire''\<rparr>]\<rparr> = \<lparr>code = ''ambulatoire''\<rparr> # []"
    by simp
qed

text \<open>
  C12. When every probability of the response lies in [0, 1], the headline percentage and
  every value of the two chart series lie in [0, 100].
\<close>

theorem percentages_bounded:
  assumes "build_result v = Inr r"
    and "\<forall>p \<in> set (tableauPredictionsBrut r). 0 \<le> probabilityDecimal p \<and> probabilityDecimal p \<le> 1"
  shows "0 \<le> pourcentage r \<and> pourcentage r \<le> 100 \<and>
         (\<forall>x \<in> set (concat (map ds_data (charts_of r))). 0 \<le> x \<and> x \<le> 100)"
proof -
  note parts = build_result_parts [OF assms(1)]
  then have "hd (summary r) \<in> set (tableauPredictionsBrut r)" by auto
  with assms(2) parts have "0 \<le> pourcentage r \<and> pourcentage r \<le> 100"
    by (auto intro!: percent_bounds)
  moreover have "\<forall>x \<in> set (concat (map ds_data (charts_of r))). 0 \<le> x \<and> x \<le> 100"
    unfolding charts_of_values by (rule valeurs_of_bounded [OF conjunct1 [OF parts] assms(2)])
  ultimately show ?thesis by blast
qed

theorem percentages_bounded_witness:
  "build_result example_envelope = Inr example_result \<and>
   list_all (\<lambda>p. 0 \<le> probabilityDecimal p \<and> probabilityDecimal p \<le> 1)
     (tableauPredictionsBrut example_result) \<and>
   0 \<le> pourcentage example_result \<and> pourcentage example_result \<le> 100 \<and>
   list_all (\<lambda>x. 0 \<le> x \<and> x \<le> 100) (concat (map ds_data (charts_of example_result)))"
proof -
  have h: "\<forall>p \<in> set (tableauPredictionsBrut example_result).
             0 \<le> probabilityDecimal p \<and> probabilityDecimal p \<le> 1"
    by (simp add: example_result_def example_predictions_def)
  show ?thesis
    using percentages_bounded [OF build_example h] build_example h by (simp add: list_all_iff)
qed

text \<open>
  C15. The headline entry is the first entry of the prediction sequence tagged
  \<open>summary\<close>, and the headline percentage is its rounded probability.
\<close>

theorem summary_is_first_tagged:
  assumes "build_result v = Inr r" and "data v = d # ds"
  shows "\<exists>i < length (prediction d).
           prediction d ! i = hd (summary r) \<and> rationale (prediction d ! i) = ''summary'' \<and>
           (\<forall>j < i. rationale (prediction d ! j) \<noteq> ''summary'') \<and>
           pourcentage r = percent (probabilityDecimal (prediction d ! i))"
proof -
  from assms have "wf_envelope v" using build_result_Inr_iff by blast
  with assms(2) obtain s0 ss oc c cs where
    s: "summary_of (prediction d) = s0 # ss" and o: "outcome s0 = Some oc" and
    c: "coding oc = c # cs" and l: "6 \<le> length (prediction d)"
    by (auto simp: wf_envelope_def neq_Nil_conv split: list.splits option.splits)
  from build_result_eq [OF assms(2) s o c l] assms(1)
  have r: "summary r = s0 # ss" "pourcentage r = percent (probabilityDecimal s0)" by auto
  from s obtain i where "i < length (prediction d)" "prediction d ! i = s0"
      "rationale s0 = ''summary''" "\<forall>j < i. rationale (prediction d ! j) \<noteq> ''summary''"
    unfolding summary_of_def by (blast dest: filter_first_index)
  with r show ?thesis by auto
qed

theorem summary_is_first_tagged_witness:
  "build_result example_envelope = Inr example_result \<and>
   data example_envelope = hd (data example_envelope) # [] \<and>
   (\<exists>i < length (prediction (hd (data example_envelope))).
      prediction (hd (data example_envelope)) ! i = hd (summary example_result) \<and>
      rationale (prediction (hd (data example_envelope)) ! i) = ''summary'' \<and>
      (\<forall>j < i. rationale (prediction (hd (data example_envelope)) ! j) \<noteq> ''summary'') \<and>
      pourcentage example_result =
        percent (probabilityDecimal (prediction (hd (data example_envelope)) ! i)))"
proof -
  have h: "data example_envelope = hd (data example_envelope) # []"
    by (simp add: example_envelope_def)
  show ?thesis using summary_is_first_tagged [OF build_example h] build_example h by simp
qed

text \<open>
  C29. Only the first record of the envelope is read (\<open>data[0]\<close>): records after it
  never change the outcome of the mapping callback, entry or error.
\<close>

theorem build_result_first_record:
  "build_result \<lparr>data = d # ds\<rparr> = build_result \<lparr>data = [d]\<rparr>"
  by (simp add: build_result_def)

text \<open>
  C30. The six values of \<open>valeursPredictions\<close> are read by position, not by the
  entries' tags: a response that lists Random Forest's hospitalisation entry before its
  ambulatory one is displayed with the two values swapped.
\<close>

theorem valeurs_of_positional:
  assumes "valeurs_of ps = Inr v"
  shows "valeurs_of (ps[0 := ps ! 1, 1 := ps ! 0]) =
           Inr (v\<lparr>rfAmbulatoire := rfHospitalise v, rfHospitalise := rfAmbulatoire v\<rparr>)"
proof -
  have l: "6 \<le> length ps" using assms valeurs_of_Inr_iff by blast
  then have "6 \<le> length (ps[0 := ps ! 1, 1 := ps ! 0])" by simp
  moreover have "0 < length ps" "1 < length ps" using l by linarith+
  ultimately show ?thesis using valeurs_of_ok [of ps] valeurs_of_ok l assms by simp
qed

theorem valeurs_of_positional_witness:
  "valeurs_of example_predictions = Inr (valeursPredictions example_result) \<and>
   valeurs_of (example_predictions[0 := example_predictions ! 1, 1 := example_predictions ! 0]) =
     Inr ((valeursPredictions example_result)
            \<lparr>rfAmbulatoire := rfHospitalise (valeursPredictions example_result),
             rfHospitalise := rfAmbulatoire (valeursPredictions example_result)\<rparr>)"
proof -
  have h: "valeurs_of example_predictions = Inr (valeursPredictions example_result)"
    using build_example build_result_parts by code_simp
  show ?thesis using valeurs_of_positional [OF h] h by simp
qed

text \<open>
  C11. Every percentage of a result entry is \<open>Math.round\<close> of the probability times 100:
  the integer nearest to \<open>100 p\<close>, a tie going up, for the headline entry and for the
  six values read by position.
\<close>

theorem percentages_round_to_nearest:
  assumes "build_result v = Inr r"
  shows "rounds_to (probabilityDecimal (hd (summary r)) * 100) (pourcentage r) \<and>
    rounds_to (probabilityDecimal (tableauPredictionsBrut r ! 0) * 100) (rfAmbulatoire (valeursPredictions r)) \<and>
    rounds_to (probabilityDecimal (tableauPredictionsBrut r ! 1) * 100) (rfHospitalise (valeursPredictions r)) \<and>
    rounds_to (probabilityDecimal (tableauPredictionsBrut r ! 2) * 100) (nnAmbulatoire (valeursPredictions r)) \<and>
    rounds_to (probabilityDecimal (tableauPredictionsBrut r ! 3) * 100) (nnHospitalise (valeursPredictions r)) \<and>
    rounds_to (probabilityDecimal (tableauPredictionsBrut r ! 4) * 100) (gbtAmbulatoire (valeursPredictions r)) \<and>
    rounds_to (probabilityDecimal (tableauPredictionsBrut r ! 5) * 100) (gbtHospitalise (valeursPredictions r))"
proof -
  from build_result_parts [OF assms]
  have v: "valeurs_of (tableauPredictionsBrut r) = Inr (valeursPredictions r)"
    and p: "pourcentage r = percent (probabilityDecimal (hd (summary r)))" by simp_all
  then have "6 \<le> length (tableauPredictionsBrut r)" using valeurs_of_Inr_iff by blast
  with v have "valeursPredictions r =
    \<lparr>rfAmbulatoire = percent (probabilityDecimal (tableauPredictionsBrut r ! 0)),
     rfHospitalise = percent (probabilityDecimal (tableauPredictionsBrut r ! 1)),
     nnAmbulatoire = percent (probabilityDecimal (tableauPredictionsBrut r ! 2)),
     nnHospitalise = percent (probabilityDecimal (tableauPredictionsBrut r ! 3)),
     gbtAmbulatoire = percent (probabilityDecimal (tableauPredictionsBrut r ! 4)),
     gbtHospitalise = percent (probabilityDecimal (tableauPredictionsBrut r ! 5))\<rparr>"
    using valeurs_of_ok by simp
  with p show ?thesis by (simp add: percent_def rounds_to_js_round)
qed

theorem percentages_round_to_nearest_witness:
  "build_result example_envelope = Inr example_result \<and>
   rounds_to (probabilityDecimal (hd (summary example_result)) * 100) (pourcentage example_result) \<and>
   rounds_to (probabilityDecimal (tableauPredictionsBrut example_result ! 0) * 100)
     (rfAmbulatoire (valeursPredictions example_result))"
  using percentages_round_to_nearest [OF build_example] build_example by blast

text \<open>
  C13. A subject reference that is an integer in decimal becomes that integer as
  \<open>idPatient\<close> (\<open>Number(data.subject.reference)\<close>, line 148).
\<close>

theorem idPatient_decimal_reference:
  assumes "build_result v = Inr r" and "reference (subject (data v ! 0)) = js_int_to_string n"
  shows "idPatient r = JNum (of_int n)"
  using build_result_idPatient [OF assms(1)] assms(2) js_string_to_number_int_to_string by simp

theorem idPatient_decimal_reference_witness:
  "build_result example_envelope = Inr example_result \<and>
   reference (subject (data example_envelope ! 0)) = js_int_to_string 42 \<and>
   idPatient example_result = JNum (of_int 42)"
proof -
  have h: "reference (subject (data example_envelope ! 0)) = js_int_to_string 42"
    by (simp add: example_envelope_def) code_simp
  show ?thesis using idPatient_decimal_reference [OF build_example h] build_example h by simp
qed

text \<open>
  C14. A subject reference of the usual FHIR form \<open>Patient/123\<close> is not a numeric
  literal: the entry the page builds has \<open>idPatient = NaN\<close>.
\<close>

theorem idPatient_fhir_reference_nan:
  assumes "build_result v = Inr r" and "CHR ''/'' \<in> set (reference (subject (data v ! 0)))"
  shows "idPatient r = JNaN"
  using build_result_idPatient [OF assms(1)] js_string_to_number_slash [OF assms(2)] by simp

theorem idPatient_fhir_reference_nan_witness:
  "build_result example_fhir_envelope = Inr (example_result\<lparr>idPatient := JNaN\<rparr>) \<and>
   CHR ''/'' \<in> set (reference (subject (data example_fhir_envelope ! 0))) \<and>
   idPatient (example_result\<lparr>idPatient := JNaN\<rparr>) = JNaN"
proof -
  have b: "build_result example_fhir_envelope = Inr (example_result\<lparr>idPatient := JNaN\<rparr>)"
    by code_simp
  have h: "CHR ''/'' \<in> set (reference (subject (data example_fhir_envelope ! 0)))"
    by (simp add: example_fhir_envelope_def)
  show ?thesis using idPatient_fhir_reference_nan [OF b h] b h by simp
qed

end
