(* ===== verification/Patient.thy ===== *)
theory Patient
  imports JsNumber
begin

text \<open>
  The patient record of the page (\<open>DataPatient\<close>, \<open>home.page.ts\<close> lines 45--59) and the
  value of the reactive form (\<open>covidForm\<close>, lines 66--73). The record's interface file is
  not among the sources; its fields are those the initializer writes. The field
  \<open>idPatient\<close> is called \<open>dp_idPatient\<close> here, since \<open>PredictionResult\<close> has a field
  of the same name.
  The patient service that fills the record from the form at submission
  (\<open>updateDatasPatient\<close>) is outside the sources; the page model takes it as a parameter
  of type \<open>assembler\<close>, and its theorems hold for every such function.
\<close>

record data_patient =
  dp_idPatient :: int
  prenom :: string
  nom :: string
  age :: int
  predictionDate :: string
  sexe :: int
  facteurDeRisque :: "string list"
  symptomes :: "string list"

text \<open>
  The value of \<open>covidForm\<close>: one field per form control, as the controls hold it. The
  text the user types is a sequence of UTF-16 code units (\<open>nat list\<close>), so that input
  beyond Latin-1 can be stated; the selections are lists of option values.
\<close>

record covid_form =
  form_nom :: "nat list"
  form_prenom :: "nat list"
  form_age :: "nat list"
  form_sexe :: "nat list"
  form_facteurDeRisque :: "string list"
  form_symptomes :: "string list"

type_synonym assembler = "data_patient \<Rightarrow> covid_form \<Rightarrow> data_patient"

text \<open>The controls' initial values (lines 67--72): empty strings, and \<open>['']\<close> for the lists.\<close>

definition initial_form :: covid_form where
  "initial_form =
     \<lparr>form_nom = [], form_prenom = [], form_age = [], form_sexe = [],
      form_facteurDeRisque = [''''], form_symptomes = ['''']\<rparr>"

text \<open>\<open>Math.floor(Math.random() * 10000)\<close> for a value \<open>r\<close> of \<open>Math.random()\<close>.\<close>

definition random_id :: "rat \<Rightarrow> int" where
  "random_id r = \<lfloor>r * 10000\<rfloor>"

text \<open>The template literal \<open>`${this.day}/${this.month}/${this.year}`\<close> (line 55).\<close>

definition format_date :: "int \<Rightarrow> int \<Rightarrow> int \<Rightarrow> string" where
  "format_date d m y =
     js_int_to_string d @ ''/'' @ js_int_to_string m @ ''/'' @ js_int_to_string y"

text \<open>
  The initializer of \<open>dataPatient\<close> (lines 49--59), given the value \<open>r\<close> of
  \<open>Math.random()\<close> and the fields \<open>day\<close>, \<open>month\<close>, \<open>year\<close> of the page
  (lines 45--47).
\<close>

definition initial_data_patient :: "rat \<Rightarrow> int \<Rightarrow> int \<Rightarrow> int \<Rightarrow> data_patient" where
  "initial_data_patient r day month year =
     \<lparr>dp_idPatient = random_id r, prenom = '''', nom = '''', age = 0,
      predictionDate = format_date day month year, sexe = 0,
      facteurDeRisque = [], symptomes = []\<rparr>"

text \<open>
  C19. For a value of \<open>Math.random()\<close> in [0, 1), the initial patient id lies in
  [0, 9999].
\<close>

theorem random_id_bounds:
  assumes "0 \<le> r" and "r < 1"
  shows "0 \<le> random_id r \<and> random_id r \<le> 9999"
proof -
  from assms have "0 \<le> r * 10000" and "r * 10000 < 10000" by simp_all
  then show ?thesis unfolding random_id_def by (simp add: floor_less_iff le_floor_iff)
qed

theorem random_id_bounds_witness:
  "0 \<le> (1 / 2 :: rat) \<and> (1 / 2 :: rat) < 1 \<and> 0 \<le> random_id (1 / 2) \<and> random_id (1 / 2) \<le> 9999"
proof -
  have h: "0 \<le> (1 / 2 :: rat)" "(1 / 2 :: rat) < 1" by simp_all
  show ?thesis using random_id_bounds [OF h] h by simp
qed

end
