(* ===== verification/HomePage.thy ===== *)
theory HomePage
  imports ResultMapper Patient
begin

text \<open>
  The page controller \<open>HomePage\<close> (\<open>home.page.ts\<close>): its fields as a record, each method
  as a function on it, and the page's life as a step function over the events that drive
  it (form input, a submission, dismissing the message, the arrival of a response or of a
  transport error for one of the subscriptions in flight).

  Correspondence with the code:
  \<^item> \<open>covidForm\<close>, \<open>predictionResult\<close>, \<open>dataPatient\<close>, \<open>chartsData\<close> are the fields
    of the class; \<open>spinnerClasses\<close> is the \<open>classList\<close> of the element
    \<open>.container__spinner\<close>, the one piece of the DOM the class writes.
    Two assumptions on the template \<open>home.page.html\<close>, which is not among the sources:
    it contains that element, so \<open>document.querySelector\<close> never returns \<open>null\<close> (on
    \<open>null\<close> the code would throw a \<open>TypeError\<close>, which the model leaves out); and no
    binding of the template writes the element's classes, so that \<open>toggleSpinner\<close> and
    \<open>ngOnInit\<close> are its only writers. The spinner properties hold under these
    assumptions.
  \<^item> \<open>pending\<close> lists the subscriptions made by \<open>getPredictionResults\<close> whose response
    has not arrived yet, each with a number and the patient record its request was built
    from; \<open>subscriptions\<close> counts the subscriptions made. Neither is a field of the
    class: they name the \<open>Subscription\<close> objects the code creates and drops, so that a
    response can be matched with its request.
  \<^item> The constant tables \<open>risques\<close>, \<open>symptomes\<close>, \<open>chartOptions\<close>,
    \<open>chartColors\<close>, \<open>chartType\<close>, \<open>chartLegend\<close> are never written and are not part
    of the state; \<open>chartLabels\<close> is a constant of the model (\<open>chartLabels\<close> below).
\<close>

record home_page =
  covidForm :: covid_form
  predictionResult :: "prediction_result list"
  dataPatient :: data_patient
  chartsData :: "chart_dataset list"
  spinnerClasses :: "string list"
  pending :: "(nat \<times> data_patient) list"
  subscriptions :: nat

subsection \<open>The DOM class list\<close>

text \<open>\<open>DOMTokenList.add\<close> and \<open>DOMTokenList.remove\<close> on the class list of an element.\<close>

definition class_add :: "string list \<Rightarrow> string \<Rightarrow> string list" where
  "class_add cl c = (if c \<in> set cl then cl else cl @ [c])"

definition class_remove :: "string list \<Rightarrow> string \<Rightarrow> string list" where
  "class_remove cl c = filter (\<lambda>x. x \<noteq> c) cl"

subsection \<open>Construction and the methods\<close>

text \<open>
  The object after its constructor (lines 22--98): the form with its initial control
  values, no result, no chart, and the patient record of \<open>initial_data_patient\<close>.
  The arguments are the value of \<open>Math.random()\<close>, the values of \<open>getDay()\<close>,
  \<open>getMonth()\<close> and \<open>getFullYear()\<close> on \<open>new Date()\<close>, and the class list the
  template gives the spinner element.
\<close>

definition home_page_init :: "rat \<Rightarrow> int \<Rightarrow> int \<Rightarrow> int \<Rightarrow> string list \<Rightarrow> home_page" where
  "home_page_init r getDay getMonth getFullYear cls =
     \<lparr>covidForm = initial_form, predictionResult = [],
      dataPatient = initial_data_patient r getDay (getMonth + 1) getFullYear,
      chartsData = [], spinnerClasses = cls, pending = [], subscriptions = 0\<rparr>"

text \<open>\<open>closeMessage\<close> (lines 100--102): \<open>this.predictionResult.length = 0\<close>.\<close>

definition closeMessage :: "home_page \<Rightarrow> home_page" where
  "closeMessage s = s\<lparr>predictionResult := []\<rparr>"

text \<open>\<open>toggleSpinner\<close> (lines 105--108).\<close>

definition toggleSpinner :: "home_page \<Rightarrow> home_page" where
  "toggleSpinner s =
     s\<lparr>spinnerClasses := class_add (class_remove (spinnerClasses s) ''invisible'') ''visible''\<rparr>"

text \<open>\<open>ngOnInit\<close> (lines 188--190).\<close>

definition ngOnInit :: "home_page \<Rightarrow> home_page" where
  "ngOnInit s = s\<lparr>spinnerClasses := class_add (spinnerClasses s) ''invisible''\<rparr>"

text \<open>
  \<open>sendDatas\<close> (lines 111--117): the patient service rebuilds \<open>dataPatient\<close> from the
  form; the request body is made from the new record. The result is the new state and
  the record the request carries.
\<close>

definition sendDatas :: "assembler \<Rightarrow> home_page \<Rightarrow> home_page \<times> data_patient" where
  "sendDatas upd s = (let dp = upd (dataPatient s) (covidForm s) in (s\<lparr>dataPatient := dp\<rparr>, dp))"

text \<open>
  \<open>getPredictionResults\<close> (lines 119--186), its synchronous part: clear an earlier
  result, show the spinner, send, and subscribe. The subscription is recorded as pending
  under the next number; the mapping callback runs later, in \<open>deliver\<close>.
\<close>

definition getPredictionResults :: "assembler \<Rightarrow> home_page \<Rightarrow> home_page" where
  "getPredictionResults upd s =
     (let s1 = (if length (predictionResult s) \<noteq> 0 then closeMessage s else s);
          s2 = toggleSpinner s1
      in case sendDatas upd s2 of
           (s3, dp) \<Rightarrow>
             s3\<lparr>pending := pending s3 @ [(subscriptions s3, dp)],
                subscriptions := Suc (subscriptions s3)\<rparr>)"

definition is_pending :: "nat \<Rightarrow> home_page \<Rightarrow> bool" where
  "is_pending i s \<longleftrightarrow> list_ex (\<lambda>p. fst p = i) (pending s)"

definition drop_subscription :: "nat \<Rightarrow> home_page \<Rightarrow> home_page" where
  "drop_subscription i s = s\<lparr>pending := filter (\<lambda>p. fst p \<noteq> i) (pending s)\<rparr>"

text \<open>
  The response \<open>v\<close> of subscription \<open>i\<close> arrives: the \<open>map\<close> callback runs on the
  fields as they are now; if it throws, the error goes to the subscriber, which has no
  error handler, and the fields keep their values. Either way the subscription ends.
\<close>

definition deliver :: "nat \<Rightarrow> fhir_data \<Rightarrow> home_page \<Rightarrow> home_page" where
  "deliver i v s =
     drop_subscription i
       (case map_values v (predictionResult s) of
          Inl _ \<Rightarrow> s
        | Inr (results, charts) \<Rightarrow> s\<lparr>predictionResult := results, chartsData := charts\<rparr>)"

subsection \<open>Events and runs\<close>

datatype page_event =
    Edit covid_form
  | Submit
  | Close
  | Deliver nat fhir_data
  | Fail nat

text \<open>
  One event. A response or a transport error for a number that is not pending has no
  subscription to go to and changes nothing; a transport error ends its subscription
  and changes nothing else (no handler hides the spinner).
\<close>

fun home_step :: "assembler \<Rightarrow> home_page \<Rightarrow> page_event \<Rightarrow> home_page" where
  "home_step upd s (Edit f) = s\<lparr>covidForm := f\<rparr>"
| "home_step upd s Submit = getPredictionResults upd s"
| "home_step upd s Close = closeMessage s"
| "home_step upd s (Deliver i v) = (if is_pending i s then deliver i v s else s)"
| "home_step upd s (Fail i) = (if is_pending i s then drop_subscription i s else s)"

fun run :: "assembler \<Rightarrow> home_page \<Rightarrow> page_event list \<Rightarrow> home_page" where
  "run upd s [] = s"
| "run upd s (e # es) = run upd (home_step upd s e) es"

text \<open>The states reachable from a start state \<open>s0\<close> by any sequence of events.\<close>

inductive reach :: "assembler \<Rightarrow> home_page \<Rightarrow> home_page \<Rightarrow> bool" for upd s0 where
  reach_start: "reach upd s0 s0"
| reach_step: "reach upd s0 s \<Longrightarrow> reach upd s0 (home_step upd s e)"

text \<open>The page as Angular starts it: constructed, then \<open>ngOnInit\<close>.\<close>

definition page_start :: "rat \<Rightarrow> int \<Rightarrow> int \<Rightarrow> int \<Rightarrow> string list \<Rightarrow> home_page" where
  "page_start r getDay getMonth getFullYear cls =
     ngOnInit (home_page_init r getDay getMonth getFullYear cls)"

subsection \<open>Invariants and examples\<close>

text \<open>
  The state invariants the properties below rest on, and a start state and patient
  service used by the examples.
\<close>

definition chart_coherent :: "home_page \<Rightarrow> bool" where
  "chart_coherent s \<longleftrightarrow>
     predictionResult s = [] \<or> chartsData s = charts_of (predictionResult s ! 0)"

text \<open>The chart's category labels (line 76), one per model.\<close>

definition chartLabels :: "string list" where
  "chartLabels = [''Random Forest'', ''Neuronal Network'', ''Gradient Boost Tree'']"

definition charts_aligned :: "home_page \<Rightarrow> bool" where
  "charts_aligned s \<longleftrightarrow> list_all (\<lambda>ds. length (ds_data ds) = length chartLabels) (chartsData s)"

definition example_start :: home_page where
  "example_start = page_start (1 / 2) 3 3 2020 [''container__spinner'']"

definition keep_patient :: assembler where
  "keep_patient d f = d"

subsection \<open>Lemmas on the handlers\<close>

lemma class_add_mem: "c \<in> set (class_add cl c)"
  by (simp add: class_add_def)

lemma set_class_add: "set (class_add cl c) = insert c (set cl)"
  by (auto simp: class_add_def)

lemma set_class_remove: "set (class_remove cl c) = set cl - {c}"
  by (auto simp: class_remove_def)

lemma getPredictionResults_eq:
  "getPredictionResults upd s =
     s\<lparr>predictionResult := [],
       dataPatient := upd (dataPatient s) (covidForm s),
       spinnerClasses := class_add (class_remove (spinnerClasses s) ''invisible'') ''visible'',
       pending := pending s @ [(subscriptions s, upd (dataPatient s) (covidForm s))],
       subscriptions := Suc (subscriptions s)\<rparr>"
  by (simp add: getPredictionResults_def closeMessage_def toggleSpinner_def sendDatas_def Let_def)

lemma deliver_Inr:
  assumes "build_result v = Inr r"
  shows "deliver i v s =
           s\<lparr>predictionResult := js_push (predictionResult s) r,
             chartsData := charts_of (js_push (predictionResult s) r ! 0),
             pending := filter (\<lambda>p. fst p \<noteq> i) (pending s)\<rparr>"
  using assms by (simp add: deliver_def map_values_eq drop_subscription_def)

lemma deliver_Inl:
  assumes "isl (map_values v (predictionResult s))"
  shows "deliver i v s = drop_subscription i s"
  using assms by (auto simp: deliver_def split: sum.split)

lemma is_pending_iff: "is_pending i s \<longleftrightarrow> i \<in> fst ` set (pending s)"
  by (auto simp: is_pending_def list_ex_iff)


lemma reach_run: "reach upd s0 s \<Longrightarrow> reach upd s0 (run upd s es)"
  by (induction es arbitrary: s) (auto intro: reach.reach_step)

lemma chart_coherent_step: "chart_coherent s \<Longrightarrow> chart_coherent (home_step upd s e)"
proof (cases e)
  case (Deliver i v)
  assume c: "chart_coherent s"
  show ?thesis
  proof (cases "build_result v")
    case (Inl err)
    then have "isl (map_values v (predictionResult s))" by (simp add: map_values_eq)
    with c Deliver show ?thesis
      by (simp add: deliver_Inl chart_coherent_def drop_subscription_def)
  next
    case (Inr r)
    with c Deliver show ?thesis
      by (simp add: deliver_Inr chart_coherent_def)
  qed
qed (auto simp: chart_coherent_def getPredictionResults_eq closeMessage_def drop_subscription_def)

lemma reach_invariant:
  assumes "reach upd s0 s" and "P s0" and "\<And>t e. P t \<Longrightarrow> P (home_step upd t e)"
  shows "P s"
  using assms by (induction rule: reach.induct) auto

lemma page_start_chart_coherent: "chart_coherent (page_start rnd d m y cls)"
  by (simp add: page_start_def ngOnInit_def home_page_init_def chart_coherent_def)

lemma charts_aligned_step: "charts_aligned s \<Longrightarrow> charts_aligned (home_step upd s e)"
proof (cases e)
  case (Deliver i v)
  assume c: "charts_aligned s"
  show ?thesis
  proof (cases "build_result v")
    case (Inl err)
    then have "isl (map_values v (predictionResult s))" by (simp add: map_values_eq)
    with c Deliver show ?thesis
      by (simp add: deliver_Inl charts_aligned_def drop_subscription_def)
  next
    case (Inr r)
    with c Deliver show ?thesis
      by (simp add: deliver_Inr charts_aligned_def charts_of_def chartLabels_def Let_def)
  qed
qed (auto simp: charts_aligned_def getPredictionResults_eq closeMessage_def drop_subscription_def)

subsection \<open>Properties of the page\<close>

text \<open>
  C3. Two submissions in quick succession, both answered: both entries end up in the
  result list, whichever response arrives first, and the chart shows the entry of the
  response that arrived first (entry 0), not the later one.
\<close>

theorem two_submissions_both_appended:
  assumes "build_result v1 = Inr r1" and "build_result v2 = Inr r2"
  shows "mset (predictionResult (run upd s [Submit, Submit, Deliver (subscriptions s) v1,
                                            Deliver (Suc (subscriptions s)) v2])) = {#r1, r2#} \<and>
         mset (predictionResult (run upd s [Submit, Submit, Deliver (Suc (subscriptions s)) v2,
                                            Deliver (subscriptions s) v1])) = {#r1, r2#} \<and>
         chartsData (run upd s [Submit, Submit, Deliver (subscriptions s) v1,
                                Deliver (Suc (subscriptions s)) v2]) = charts_of r1 \<and>
         chartsData (run upd s [Submit, Submit, Deliver (Suc (subscriptions s)) v2,
                                Deliver (subscriptions s) v1]) = charts_of r2"
  by (simp add: getPredictionResults_eq is_pending_def deliver_Inr assms js_push_def)

theorem two_submissions_both_appended_witness:
  "build_result example_envelope = Inr example_result \<and>
   mset (predictionResult (run keep_patient example_start
     [Submit, Submit, Deliver (subscriptions example_start) example_envelope,
      Deliver (Suc (subscriptions example_start)) example_envelope])) =
     {#example_result, example_result#}"
  using two_submissions_both_appended [OF build_example build_example, of keep_patient example_start]
    build_example by simp

text \<open>
  C5. In every state the page reaches from its start, whenever the result list is not
  empty the chart shows the percentages of entry 0 of the list.
\<close>

theorem reach_chart_coherent:
  assumes "reach upd (page_start rnd d m y cls) s" and "predictionResult s \<noteq> []"
  shows "chartsData s = charts_of (predictionResult s ! 0)"
proof -
  have "chart_coherent s"
    using assms(1) page_start_chart_coherent chart_coherent_step by (rule reach_invariant)
  with assms(2) show ?thesis by (simp add: chart_coherent_def)
qed

theorem reach_chart_coherent_witness:
  "reach keep_patient example_start (run keep_patient example_start [Submit, Deliver 0 example_envelope]) \<and>
   predictionResult (run keep_patient example_start [Submit, Deliver 0 example_envelope]) \<noteq> [] \<and>
   chartsData (run keep_patient example_start [Submit, Deliver 0 example_envelope]) =
     charts_of (predictionResult (run keep_patient example_start [Submit, Deliver 0 example_envelope]) ! 0)"
proof -
  have r: "reach keep_patient example_start (run keep_patient example_start [Submit, Deliver 0 example_envelope])"
    by (rule reach_run [OF reach.reach_start])
  have n: "predictionResult (run keep_patient example_start [Submit, Deliver 0 example_envelope]) \<noteq> []"
    by (simp add: getPredictionResults_eq is_pending_def deliver_Inr [OF build_example]
        example_start_def page_start_def ngOnInit_def home_page_init_def)
  show ?thesis using reach_chart_coherent [OF r [unfolded example_start_def] n [unfolded example_start_def]] r n
    by (simp add: example_start_def)
qed

text \<open>
  C9. \<open>closeMessage\<close> empties the result list, leaves the chart as it was, and a
  second call changes nothing.
\<close>

theorem closeMessage_spec:
  "predictionResult (closeMessage s) = [] \<and> chartsData (closeMessage s) = chartsData s \<and>
   closeMessage (closeMessage s) = closeMessage s"
  by (simp add: closeMessage_def)


text \<open>
  C16. A response on which the mapping callback throws changes nothing of the page but
  ending its subscription: the result list, the chart, the patient record and the spinner
  keep their values.
\<close>

theorem deliver_error_keeps_state:
  assumes "isl (map_values v (predictionResult s))"
  shows "home_step upd s (Deliver i v) = s\<lparr>pending := filter (\<lambda>p. fst p \<noteq> i) (pending s)\<rparr>"
proof (cases "is_pending i s")
  case True
  with assms show ?thesis by (simp add: deliver_Inl drop_subscription_def)
next
  case False
  then have "filter (\<lambda>p. fst p \<noteq> i) (pending s) = pending s"
    by (auto simp: is_pending_def list_ex_iff)
  with False show ?thesis by simp
qed

theorem deliver_error_keeps_state_witness:
  "isl (map_values example_no_summary (predictionResult (run keep_patient example_start [Submit]))) \<and>
   is_pending 0 (run keep_patient example_start [Submit]) \<and>
   home_step keep_patient (run keep_patient example_start [Submit]) (Deliver 0 example_no_summary) =
     (run keep_patient example_start [Submit])
       \<lparr>pending := filter (\<lambda>p. fst p \<noteq> 0) (pending (run keep_patient example_start [Submit]))\<rparr>"
proof -
  have p: "predictionResult (run keep_patient example_start [Submit]) = []"
    "is_pending 0 (run keep_patient example_start [Submit])"
    by (simp_all add: getPredictionResults_eq is_pending_def example_start_def page_start_def
        ngOnInit_def home_page_init_def)
  have "isl (map_values example_no_summary [])" by code_simp
  then have h: "isl (map_values example_no_summary (predictionResult (run keep_patient example_start [Submit])))"
    using p(1) by simp
  show ?thesis using deliver_error_keeps_state [OF h, where upd = keep_patient and i = 0] h p(2)
    by simp
qed

text \<open>
  C17. Dismissing the message does not cancel a request in flight: a response arriving
  after \<open>closeMessage\<close> fills the result list again.
\<close>

theorem late_response_after_close:
  assumes "build_result v = Inr r"
  shows "predictionResult (run upd s [Submit, Close, Deliver (subscriptions s) v]) = [r]"
  by (simp add: getPredictionResults_eq closeMessage_def is_pending_def deliver_Inr assms)

theorem late_response_after_close_witness:
  "build_result example_envelope = Inr example_result \<and>
   predictionResult (run keep_patient example_start
     [Submit, Close, Deliver (subscriptions example_start) example_envelope]) = [example_result]"
  using late_response_after_close [OF build_example, of keep_patient example_start] build_example
  by simp

text \<open>
  C18. A submission clears the earlier result, shows the spinner, rebuilds the patient
  record from the form with the patient service, sends a request carrying that record and
  leaves the chart as it was.
\<close>

theorem submit_effects:
  "predictionResult (home_step upd s Submit) = [] \<and>
   ''visible'' \<in> set (spinnerClasses (home_step upd s Submit)) \<and>
   ''invisible'' \<notin> set (spinnerClasses (home_step upd s Submit)) \<and>
   dataPatient (home_step upd s Submit) = upd (dataPatient s) (covidForm s) \<and>
   pending (home_step upd s Submit) =
     pending s @ [(subscriptions s, upd (dataPatient s) (covidForm s))] \<and>
   chartsData (home_step upd s Submit) = chartsData s"
  by (simp add: getPredictionResults_eq set_class_add set_class_remove)

text \<open>
  C27. Responses are appended in arrival order, each exactly once: delivering the
  responses of distinct pending subscriptions, all well formed, appends their entries to
  the result list in the order they arrive, whatever order the requests were made in.
\<close>

theorem responses_appended_in_arrival_order:
  assumes "distinct (map fst ds)"
    and "list_all (\<lambda>(i, v). is_pending i s \<and> \<not> isl (build_result v)) ds"
  shows "predictionResult (run upd s (map (\<lambda>(i, v). Deliver i v) ds)) =
           predictionResult s @ map (\<lambda>(i, v). projr (build_result v)) ds"
  using assms
proof (induction ds arbitrary: s)
  case Nil
  then show ?case by simp
next
  case (Cons d ds)
  obtain i v where d: "d = (i, v)" by (cases d)
  with Cons.prems have p: "is_pending i s" and "\<not> isl (build_result v)" by auto
  then obtain r where r: "build_result v = Inr r" by (cases "build_result v") auto
  let ?s' = "home_step upd s (Deliver i v)"
  have s': "predictionResult ?s' = predictionResult s @ [r]"
    "pending ?s' = filter (\<lambda>p. fst p \<noteq> i) (pending s)"
    using p r by (simp_all add: deliver_Inr js_push_def)
  have "list_all (\<lambda>(j, w). is_pending j ?s' \<and> \<not> isl (build_result w)) ds"
    unfolding list_all_iff
  proof (intro ballI, clarify)
    fix j w assume jw: "(j, w) \<in> set ds"
    then have "j \<noteq> i" using Cons.prems(1) d by force
    moreover from jw Cons.prems(2) have "is_pending j s" "\<not> isl (build_result w)"
      by (auto simp: list_all_iff)
    ultimately show "is_pending j ?s' \<and> \<not> isl (build_result w)"
      using s'(2) by (auto simp: is_pending_def list_ex_iff)
  qed
  moreover have "distinct (map fst ds)" using Cons.prems by simp
  ultimately show ?case
    using Cons.IH [of ?s'] s'(1) d r by simp
qed

theorem responses_appended_in_arrival_order_witness:
  "distinct (map fst [(1 :: nat, example_envelope), (0, example_envelope)]) \<and>
   list_all (\<lambda>(i, v). is_pending i (run keep_patient example_start [Submit, Submit]) \<and>
     \<not> isl (build_result v)) [(1 :: nat, example_envelope), (0, example_envelope)] \<and>
   predictionResult (run keep_patient (run keep_patient example_start [Submit, Submit])
     (map (\<lambda>(i, v). Deliver i v) [(1, example_envelope), (0, example_envelope)])) =
   predictionResult (run keep_patient example_start [Submit, Submit]) @
     map (\<lambda>(i, v). projr (build_result v)) [(1 :: nat, example_envelope), (0, example_envelope)]"
proof -
  have h: "distinct (map fst [(1 :: nat, example_envelope), (0, example_envelope)])"
    "list_all (\<lambda>(i, v). is_pending i (run keep_patient example_start [Submit, Submit]) \<and>
       \<not> isl (build_result v)) [(1 :: nat, example_envelope), (0, example_envelope)]"
    by (simp_all add: build_example getPredictionResults_eq is_pending_def example_start_def
        page_start_def ngOnInit_def home_page_init_def)
  show ?thesis using responses_appended_in_arrival_order [OF h, where upd = keep_patient] h
    by blast
qed

text \<open>
  C28. The chart's data arrays always have one value per label of \<open>chartLabels\<close>:
  every reachable state of a started page has only data sets of length 3.
\<close>

theorem reach_charts_aligned:
  assumes "reach upd (page_start r d m y cls) s"
  shows "charts_aligned s"
  using assms
proof (rule reach_invariant)
  show "charts_aligned (page_start r d m y cls)"
    by (simp add: charts_aligned_def page_start_def ngOnInit_def home_page_init_def)
qed (rule charts_aligned_step)

theorem reach_charts_aligned_witness:
  "reach keep_patient example_start (run keep_patient example_start [Submit, Deliver 0 example_envelope]) \<and>
   charts_aligned (run keep_patient example_start [Submit, Deliver 0 example_envelope])"
proof -
  have h: "reach keep_patient (page_start (1 / 2) 3 3 2020 [''container__spinner''])
             (run keep_patient example_start [Submit, Deliver 0 example_envelope])"
    unfolding example_start_def by (rule reach_run) (rule reach.reach_start)
  show ?thesis using reach_charts_aligned [OF h] h by (simp add: example_start_def)
qed

end
