(* ===== verification/FormValidation.thy ===== *)
theory FormValidation
  imports Patient
begin

text \<open>
  The validators the constructor attaches to \<open>covidForm\<close> (\<open>home.page.ts\<close>, lines
  66--73): \<open>Validators.pattern\<close> on the two names and the age, \<open>Validators.required\<close> on
  the sex and the two selections. \<open>Validators.pattern(p)\<close> with a string \<open>p\<close> compiles
  \<open>new RegExp('^' + p + '$')\<close> (the anchors added only where \<open>p\<close> lacks them) and
  accepts an empty value without testing it; \<open>Validators.required\<close> rejects exactly the
  empty string and the empty array.

  The regular expressions are modelled for the subset the page uses: anchors, literal
  characters, \<open>.\<close>, character classes with ranges (possibly negated) and the
  quantifiers \<open>*\<close>, \<open>+\<close>, \<open>?\<close>. A pattern outside the subset (groups, alternation,
  escapes, braces) parses to \<open>None\<close>. Values and patterns are sequences of UTF-16 code
  units. \<open>regex_test\<close> is \<open>RegExp.prototype.test\<close> without flags: a match starting at
  some index; the search order of the engine does not change whether one exists.
\<close>

subsection \<open>Regular expressions\<close>

datatype class_item = CSingle nat | CRange nat nat

datatype re_atom = AChar nat | AClass bool "class_item list" | ADot

datatype re_quant = QOne | QStar | QPlus | QOpt

datatype re_term = TBol | TEol | TAtom re_atom re_quant

definition in_class :: "class_item list \<Rightarrow> nat \<Rightarrow> bool" where
  "in_class cls c =
     list_ex (\<lambda>it. case it of CSingle a \<Rightarrow> c = a | CRange a b \<Rightarrow> a \<le> c \<and> c \<le> b) cls"

text \<open>\<open>.\<close> matches every code unit but the line terminators LF, CR, U+2028, U+2029.\<close>

definition atom_ok :: "re_atom \<Rightarrow> nat \<Rightarrow> bool" where
  "atom_ok a c =
     (case a of
        AChar x \<Rightarrow> c = x
      | AClass neg cls \<Rightarrow> (in_class cls c \<noteq> neg)
      | ADot \<Rightarrow> c \<notin> {10, 13, 8232, 8233})"

definition quant_ok :: "re_quant \<Rightarrow> nat \<Rightarrow> bool" where
  "quant_ok q k = (case q of QOne \<Rightarrow> k = 1 | QStar \<Rightarrow> True | QPlus \<Rightarrow> 1 \<le> k | QOpt \<Rightarrow> k \<le> 1)"

text \<open>
  \<open>re_match ts i s\<close>: the terms \<open>ts\<close> match a prefix of the rest \<open>s\<close> of the input,
  \<open>i\<close> code units having been consumed before it (\<open>^\<close> holds at \<open>i = 0\<close>, \<open>$\<close> at the
  end of the input). A quantified atom consumes any admissible number \<open>k\<close> of units.
\<close>

fun re_match :: "re_term list \<Rightarrow> nat \<Rightarrow> nat list \<Rightarrow> bool" where
  "re_match [] i s = True"
| "re_match (TBol # ts) i s = (i = 0 \<and> re_match ts i s)"
| "re_match (TEol # ts) i s = (s = [] \<and> re_match ts i s)"
| "re_match (TAtom a q # ts) i s =
     list_ex (\<lambda>k. quant_ok q k \<and> list_all (atom_ok a) (take k s) \<and> re_match ts (i + k) (drop k s))
       [0..<Suc (length s)]"

definition regex_test :: "re_term list \<Rightarrow> nat list \<Rightarrow> bool" where
  "regex_test ts s = list_ex (\<lambda>i. re_match ts i (drop i s)) [0..<Suc (length s)]"

text \<open>
  The reference semantics of a term list, independent of the search order:
  \<open>re_matches ts i s\<close> when \<open>s\<close> starts with a concatenation of pieces, one per term,
  each admitted by its term (\<open>^\<close> only at index 0, \<open>$\<close> only at the end, an atom
  quantified by \<open>q\<close> a run of units of admissible length that all match the atom).
\<close>

inductive re_matches :: "re_term list \<Rightarrow> nat \<Rightarrow> nat list \<Rightarrow> bool" where
  match_nil: "re_matches [] i s"
| match_bol: "re_matches ts 0 s \<Longrightarrow> re_matches (TBol # ts) 0 s"
| match_eol: "re_matches ts i [] \<Longrightarrow> re_matches (TEol # ts) i []"
| match_atom: "quant_ok q (length w) \<Longrightarrow> list_all (atom_ok a) w \<Longrightarrow>
    re_matches ts (i + length w) r \<Longrightarrow> re_matches (TAtom a q # ts) i (w @ r)"

text \<open>
  The body of a character class, between \<open>[\<close> (and \<open>^\<close> if negated) and the first
  \<open>]\<close>: single units and ranges \<open>a-b\<close>; a \<open>-\<close> that cannot start a range (first,
  last, or right after a range) is itself a member. A range whose ends are out of order
  is a syntax error, an escape is outside the subset: both \<open>None\<close>.
\<close>

fun parse_class_body :: "nat list \<Rightarrow> class_item list option" where
  "parse_class_body [] = Some []"
| "parse_class_body (c # r) =
     (if c = 92 then None
      else case r of
             d # b # r' \<Rightarrow>
               (if d = 45 then
                  (if b = 92 \<or> b < c then None
                   else map_option (Cons (CRange c b)) (parse_class_body r'))
                else map_option (Cons (CSingle c)) (parse_class_body r))
           | _ \<Rightarrow> map_option (Cons (CSingle c)) (parse_class_body r))"

text \<open>A class from the unit after its \<open>[\<close>: its items and the input after its \<open>]\<close>.\<close>

definition parse_class :: "nat list \<Rightarrow> (class_item list \<times> nat list) option" where
  "parse_class r =
     (case dropWhile (\<lambda>c. c \<noteq> 93) r of
        [] \<Rightarrow> None
      | _ # rest \<Rightarrow> map_option (\<lambda>cls. (cls, rest)) (parse_class_body (takeWhile (\<lambda>c. c \<noteq> 93) r)))"

text \<open>The quantifier after an atom: \<open>*\<close>, \<open>+\<close>, \<open>?\<close> or none.\<close>

definition parse_quant :: "nat list \<Rightarrow> re_quant \<times> nat list" where
  "parse_quant s =
     (case s of
        c # r \<Rightarrow>
          (if c = 42 then (QStar, r) else if c = 43 then (QPlus, r)
           else if c = 63 then (QOpt, r) else (QOne, s))
      | [] \<Rightarrow> (QOne, s))"

text \<open>One atom: a class, \<open>.\<close>, or a literal unit that is not special.\<close>

definition parse_atom :: "nat list \<Rightarrow> (re_atom \<times> nat list) option" where
  "parse_atom s =
     (case s of
        [] \<Rightarrow> None
      | c # r \<Rightarrow>
          (if c = 91 then
             (case r of
                n # r' \<Rightarrow>
                  (if n = 94 then map_option (\<lambda>(cls, rest). (AClass True cls, rest)) (parse_class r')
                   else map_option (\<lambda>(cls, rest). (AClass False cls, rest)) (parse_class r))
              | [] \<Rightarrow> None)
           else if c = 46 then Some (ADot, r)
           else if c \<in> {40, 41, 42, 43, 63, 92, 123, 124, 125} then None
           else Some (AChar c, r)))"

text \<open>
  The pattern string as the \<open>RegExp\<close> constructor reads it, for the subset: a sequence
  of anchors and quantified atoms. The recursion is on a strictly shorter suffix: every
  atom consumes at least one unit.
\<close>

function parse_re :: "nat list \<Rightarrow> re_term list option" where
  "parse_re s =
     (case s of
        [] \<Rightarrow> Some []
      | c # r \<Rightarrow>
          (if c = 94 then map_option (Cons TBol) (parse_re r)
           else if c = 36 then map_option (Cons TEol) (parse_re r)
           else case parse_atom s of
                  None \<Rightarrow> None
                | Some (a, rest) \<Rightarrow>
                    (case parse_quant rest of
                       (q, rest') \<Rightarrow> map_option (Cons (TAtom a q)) (parse_re rest'))))"
  by pat_completeness auto
termination
proof (relation "measure length")
  have pc: "length rest < length s" if "parse_class s = Some (cls, rest)" for s cls rest
    using that length_dropWhile_le [of "\<lambda>c. c \<noteq> 93" s]
    unfolding parse_class_def by (auto split: list.splits)
  have pa: "length rest < length s" if "parse_atom s = Some (a, rest)" for s a rest
    using that unfolding parse_atom_def by (auto split: list.splits if_splits dest!: pc)
  have pq: "length (snd (parse_quant s)) \<le> length s" for s
    by (simp add: parse_quant_def split: list.splits)
  show "wf (measure length)" by simp
  show "(r, s) \<in> measure length" if "s = c # r" and "c = 94" for s c r
    using that by simp
  show "(r, s) \<in> measure length" if "s = c # r" and "c \<noteq> 94" and "c = 36" for s c r
    using that by simp
  show "(rest', s) \<in> measure length"
    if "s = c # r" "c \<noteq> 94" "c \<noteq> 36" "parse_atom s = Some x" "(a, rest) = x"
      "(q, rest') = parse_quant rest" for s c r x a rest q rest'
    using that pa [of s a rest] pq [of rest] by (metis in_measure le_less_trans snd_conv)
qed

subsection \<open>The Angular validators\<close>

text \<open>
  \<open>Validators.pattern(p)\<close> for a string: \<open>'^'\<close> prepended unless \<open>p\<close> starts with
  it, \<open>'$'\<close> appended unless it ends with it, then \<open>new RegExp\<close>.
\<close>

definition angular_pattern_source :: "nat list \<Rightarrow> nat list" where
  "angular_pattern_source p =
     (if take 1 p = [94] then [] else [94]) @ p @ (if p \<noteq> [] \<and> last p = 36 then [] else [36])"

definition compile_pattern :: "nat list \<Rightarrow> re_term list option" where
  "compile_pattern p = parse_re (angular_pattern_source p)"

text \<open>
  Whether the pattern validator reports an error on a value: never on the empty value,
  otherwise when the compiled expression finds no match. A pattern outside the modelled
  subset is reported as an error on every non-empty value.
\<close>

definition pattern_error :: "nat list \<Rightarrow> nat list \<Rightarrow> bool" where
  "pattern_error p v =
     (v \<noteq> [] \<and> (case compile_pattern p of None \<Rightarrow> True | Some re \<Rightarrow> \<not> regex_test re v))"

text \<open>\<open>Validators.required\<close>: an error on an empty string or an empty array only.\<close>

definition required_error :: "'a list \<Rightarrow> bool" where
  "required_error v \<longleftrightarrow> v = []"

text \<open>
  The patterns of lines 67--69 as the TypeScript string literals denote them (the
  \<open>\\'\<close> of the source is an escaped quote): \<open>[a-zA-Z\<close> followed by the ranges U+00C0--U+00D6, U+00D8--U+00F6, U+00F8--U+00FF and \<open>-' ]*\<close> and
  \<open>[0-9]*\<close>, as UTF-16 code units.
\<close>

definition name_pattern :: "nat list" where
  "name_pattern =
     [91, 97, 45, 122, 65, 45, 90, 192, 45, 214, 216, 45, 246, 248, 45, 255, 45, 39, 32, 93, 42]"

definition age_pattern :: "nat list" where
  "age_pattern = [91, 48, 45, 57, 93, 42]"

text \<open>
  The units the name class \<open>[a-zA-Z...-' ]\<close> of line 67 admits, range by range,
  and the decimal digits of the age class \<open>[0-9]\<close>.
\<close>

definition name_unit :: "nat \<Rightarrow> bool" where
  "name_unit c \<longleftrightarrow>
     (97 \<le> c \<and> c \<le> 122) \<or> (65 \<le> c \<and> c \<le> 90) \<or> (192 \<le> c \<and> c \<le> 214) \<or>
     (216 \<le> c \<and> c \<le> 246) \<or> (248 \<le> c \<and> c \<le> 255) \<or> c = 45 \<or> c = 39 \<or> c = 32"

definition digit_unit :: "nat \<Rightarrow> bool" where
  "digit_unit c \<longleftrightarrow> 48 \<le> c \<and> c \<le> 57"

text \<open>
  The errors of \<open>covidForm\<close> for a value of the form, control by control in the order
  of the \<open>group\<close> call: the control's name and the validator's error key.
\<close>

definition covid_form_errors :: "covid_form \<Rightarrow> (string \<times> string) list" where
  "covid_form_errors f =
     (if pattern_error name_pattern (form_nom f) then [(''nom'', ''pattern'')] else []) @
     (if pattern_error name_pattern (form_prenom f) then [(''prenom'', ''pattern'')] else []) @
     (if pattern_error age_pattern (form_age f) then [(''age'', ''pattern'')] else []) @
     (if required_error (form_sexe f) then [(''sexe'', ''required'')] else []) @
     (if required_error (form_facteurDeRisque f) then [(''facteurDeRisque'', ''required'')] else []) @
     (if required_error (form_symptomes f) then [(''symptomes'', ''required'')] else [])"

subsection \<open>Regular expressions: matching an anchored starred atom\<close>

lemma regex_test_anchored_star:
  "regex_test [TBol, TAtom a QStar, TEol] s \<longleftrightarrow> list_all (atom_ok a) s"
proof
  assume "regex_test [TBol, TAtom a QStar, TEol] s"
  then obtain k where "k \<le> length s" "list_all (atom_ok a) (take k s)" "drop k s = []"
    by (auto simp: regex_test_def list_ex_iff quant_ok_def)
  then show "list_all (atom_ok a) s" by simp
next
  assume "list_all (atom_ok a) s"
  then have "re_match [TBol, TAtom a QStar, TEol] 0 s"
    by (auto simp: list_ex_iff quant_ok_def intro!: bexI [of _ "length s"])
  then show "regex_test [TBol, TAtom a QStar, TEol] s"
    by (auto simp: regex_test_def list_ex_iff intro!: bexI [of _ 0])
qed

lemma re_match_sound: "re_match ts i s \<Longrightarrow> re_matches ts i s"
proof (induction ts i s rule: re_match.induct)
  case (1 i s)
  show ?case by (rule match_nil)
next
  case (2 ts i s)
  then show ?case by (auto intro: match_bol)
next
  case (3 ts i s)
  then show ?case by (auto intro: match_eol)
next
  case (4 a q ts i s)
  from "4.prems" obtain k where k: "k \<le> length s" "quant_ok q k" "list_all (atom_ok a) (take k s)"
    "re_match ts (i + k) (drop k s)"
    unfolding re_match.simps list_ex_upt_Suc by blast
  have "k \<in> set [0..<Suc (length s)]" using k(1) by auto
  from "4.IH" [OF this] k(4) have "re_matches ts (i + length (take k s)) (drop k s)"
    using k(1) by (simp add: min_absorb2)
  with k match_atom [of q "take k s" a ts i "drop k s"] show ?case
    by (simp add: min_absorb2)
qed

lemma re_match_complete: "re_matches ts i s \<Longrightarrow> re_match ts i s"
proof (induction rule: re_matches.induct)
  case (match_atom q w a ts i r)
  then show ?case
    by (auto simp: list_ex_iff intro!: bexI [of _ "length w"])
qed simp_all

lemma pattern_error_anchored_star:
  assumes "compile_pattern p = Some [TBol, TAtom a QStar, TEol]"
  shows "pattern_error p v \<longleftrightarrow> \<not> list_all (atom_ok a) v"
  using assms by (cases v) (auto simp: pattern_error_def regex_test_anchored_star)

lemma compile_name_pattern:
  "compile_pattern name_pattern =
     Some [TBol, TAtom (AClass False [CRange 97 122, CRange 65 90, CRange 192 214, CRange 216 246,
                                     CRange 248 255, CSingle 45, CSingle 39, CSingle 32]) QStar, TEol]"
  by code_simp

lemma compile_age_pattern:
  "compile_pattern age_pattern = Some [TBol, TAtom (AClass False [CRange 48 57]) QStar, TEol]"
  by code_simp

lemma name_pattern_error: "pattern_error name_pattern v \<longleftrightarrow> \<not> list_all name_unit v"
proof -
  have "atom_ok (AClass False [CRange 97 122, CRange 65 90, CRange 192 214, CRange 216 246,
                               CRange 248 255, CSingle 45, CSingle 39, CSingle 32]) = name_unit"
    by (auto simp: atom_ok_def in_class_def name_unit_def)
  then show ?thesis
    using pattern_error_anchored_star [OF compile_name_pattern] by simp
qed

lemma age_pattern_error: "pattern_error age_pattern v \<longleftrightarrow> \<not> list_all digit_unit v"
proof -
  have "atom_ok (AClass False [CRange 48 57]) = digit_unit"
    by (auto simp: atom_ok_def in_class_def digit_unit_def)
  then show ?thesis
    using pattern_error_anchored_star [OF compile_age_pattern] by simp
qed

lemmas form_validator_simps =
  name_pattern_error age_pattern_error required_error_def

subsection \<open>Properties of the form's validation\<close>

text \<open>
  C20. The name validator of lines 67--68 reports an error on a value exactly when some
  code unit of it lies outside \<open>a-z\<close>, \<open>A-Z\<close>, U+00C0--U+00D6, U+00D8--U+00F6,
  U+00F8--U+00FF, \<open>-\<close>, \<open>'\<close> and space (so \<open>\<times>\<close> U+00D7 and \<open>\<div>\<close> U+00F7 are refused,
  and the empty value passes).
\<close>

theorem name_pattern_error_iff: "pattern_error name_pattern v \<longleftrightarrow> \<not> list_all name_unit v"
  by (rule name_pattern_error)

text \<open>
  C21. The age validator of line 69 reports an error exactly when the value has a unit
  that is not a decimal digit: signs, decimal points and exponents are refused.
\<close>

theorem age_pattern_error_iff: "pattern_error age_pattern v \<longleftrightarrow> \<not> list_all digit_unit v"
  by (rule age_pattern_error)

text \<open>
  C22. The form is valid (no control reports an error) exactly when both names use only
  the admitted units, the age only digits, and the sex and both selections are non-empty.
\<close>

theorem covid_form_valid_iff:
  "covid_form_errors f = [] \<longleftrightarrow>
     list_all name_unit (form_nom f) \<and> list_all name_unit (form_prenom f) \<and>
     list_all digit_unit (form_age f) \<and> form_sexe f \<noteq> [] \<and>
     form_facteurDeRisque f \<noteq> [] \<and> form_symptomes f \<noteq> []"
  by (simp add: covid_form_errors_def form_validator_simps)

text \<open>
  C23. A name with a code unit beyond U+00FF (the Polish L with stroke U+0141, Greek, Cyrillic, any
  non-Latin-1 script) is always refused by the name validator.
\<close>

theorem name_pattern_rejects_beyond_latin1:
  assumes "c \<in> set v" and "255 < c"
  shows "pattern_error name_pattern v"
proof -
  from assms have "\<not> name_unit c" by (simp add: name_unit_def)
  with assms(1) show ?thesis by (auto simp: name_pattern_error list_all_iff)
qed

theorem name_pattern_rejects_beyond_latin1_witness:
  "321 \<in> set [321, 111, 100, 122, 105 :: nat] \<and> 255 < (321 :: nat) \<and>
   pattern_error name_pattern [321, 111, 100, 122, 105]"
proof -
  have h: "321 \<in> set [321, 111, 100, 122, 105 :: nat]" "255 < (321 :: nat)" by simp_all
  show ?thesis using name_pattern_rejects_beyond_latin1 [OF h] h by simp
qed

text \<open>
  The backtracking matcher \<open>regex_test\<close> agrees with the reference semantics: a
  value passes exactly when some suffix of it, starting at index \<open>i\<close>, begins with a
  concatenation of pieces admitted by the terms.
\<close>

lemma regex_test_iff_matches:
  "regex_test ts s \<longleftrightarrow> (\<exists>i \<le> length s. re_matches ts i (drop i s))"
proof -
  have "re_match ts i (drop i s) \<longleftrightarrow> re_matches ts i (drop i s)" for i
    using re_match_sound re_match_complete by blast
  then show ?thesis unfolding regex_test_def list_ex_upt_Suc by simp
qed

end
