(* ===== verification/Calendar.thy ===== *)
theory Calendar
  imports Patient
begin

text \<open>
  The clock fields of the page (\<open>home.page.ts\<close> lines 44--47): \<open>new Date()\<close> and its
  getters \<open>getDay\<close>, \<open>getMonth\<close>, \<open>getFullYear\<close>, as ECMAScript defines them on a
  time value \<open>t\<close> (milliseconds since 1 January 1970, here already shifted to local time:
  the time-zone offset is the environment's). \<open>Day\<close>, \<open>WeekDay\<close>, \<open>DaysInYear\<close>,
  \<open>DayFromYear\<close>, \<open>TimeFromYear\<close>, \<open>YearFromTime\<close>, \<open>InLeapYear\<close>,
  \<open>DayWithinYear\<close>, \<open>MonthFromTime\<close>, \<open>DateFromTime\<close> and \<open>MakeDay\<close> become
  \<open>day_of\<close>, \<open>week_day\<close>, \<open>days_in_year\<close>, \<open>day_from_year\<close>,
  \<open>time_from_year\<close>, \<open>year_from_time\<close>, \<open>in_leap_year\<close>, \<open>day_within_year\<close>,
  \<open>month_from_time\<close>, \<open>date_from_time\<close>, \<open>make_day\<close>. The specification defines
  \<open>YearFromTime\<close> as the largest year starting at or before \<open>t\<close>; the model computes
  it by a search from 1970 (\<open>year_up\<close>, \<open>year_down\<close>), proved equal to that definition
  (\<open>year_from_time_iff\<close>). Time values are integers; the range limit of \<open>Date\<close> (8.64e15 ms) is not needed
  since \<open>new Date()\<close> is the current time.
\<close>

definition ms_per_day :: int where
  "ms_per_day = 86400000"

definition day_of :: "int \<Rightarrow> int" where
  "day_of t = t div ms_per_day"

definition week_day :: "int \<Rightarrow> int" where
  "week_day t = (day_of t + 4) mod 7"

text \<open>\<open>DaysInYear\<close> and \<open>DayFromYear\<close>: the Gregorian leap rule and the day number of
  1 January of \<open>y\<close>.\<close>

definition days_in_year :: "int \<Rightarrow> int" where
  "days_in_year y =
     (if y mod 4 \<noteq> 0 then 365 else if y mod 100 \<noteq> 0 then 366
      else if y mod 400 \<noteq> 0 then 365 else 366)"

definition day_from_year :: "int \<Rightarrow> int" where
  "day_from_year y =
     365 * (y - 1970) + (y - 1969) div 4 - (y - 1901) div 100 + (y - 1601) div 400"

definition time_from_year :: "int \<Rightarrow> int" where
  "time_from_year y = ms_per_day * day_from_year y"

text \<open>
  The year of day \<open>d\<close>: a search upward from 1970 for \<open>d \<ge> 0\<close>, downward from 1969
  otherwise. Each step moves one year and \<open>day_from_year\<close> grows with the year, so the
  distance to \<open>d\<close> decreases: that distance is the termination measure.
\<close>

function year_up :: "int \<Rightarrow> int \<Rightarrow> int" where
  "year_up d y = (if day_from_year (y + 1) \<le> d then year_up d (y + 1) else y)"
  by pat_completeness auto
termination
proof (relation "measure (\<lambda>(d, y). nat (d - day_from_year y))")
  show "wf (measure (\<lambda>(d, y). nat (d - day_from_year y)))" by simp
  show "((d, y + 1), d, y) \<in> measure (\<lambda>(d, y). nat (d - day_from_year y))"
    if "day_from_year (y + 1) \<le> d" for d y
  proof -
    have "day_from_year y < day_from_year (y + 1)"
      using div_plus_one_bounds [of 4 "y - 1969"] div_plus_one_bounds [of 100 "y - 1901"]
        div_plus_one_bounds [of 400 "y - 1601"]
      unfolding day_from_year_def by (simp add: algebra_simps)
    with that show ?thesis by simp
  qed
qed

function year_down :: "int \<Rightarrow> int \<Rightarrow> int" where
  "year_down d y = (if d < day_from_year y then year_down d (y - 1) else y)"
  by pat_completeness auto
termination
proof (relation "measure (\<lambda>(d, y). nat (day_from_year y - d))")
  show "wf (measure (\<lambda>(d, y). nat (day_from_year y - d)))" by simp
  show "((d, y - 1), d, y) \<in> measure (\<lambda>(d, y). nat (day_from_year y - d))"
    if "d < day_from_year y" for d y
  proof -
    have "day_from_year (y - 1) < day_from_year y"
      using div_plus_one_bounds [of 4 "y - 1970"] div_plus_one_bounds [of 100 "y - 1902"]
        div_plus_one_bounds [of 400 "y - 1602"]
      unfolding day_from_year_def by (simp add: algebra_simps)
    with that show ?thesis by simp
  qed
qed

declare year_up.simps [simp del] year_down.simps [simp del]

definition year_from_day :: "int \<Rightarrow> int" where
  "year_from_day d = (if 0 \<le> d then year_up d 1970 else year_down d 1969)"

definition year_from_time :: "int \<Rightarrow> int" where
  "year_from_time t = year_from_day (day_of t)"

definition in_leap_year :: "int \<Rightarrow> int" where
  "in_leap_year y = (if days_in_year y = 366 then 1 else 0)"

definition day_within_year :: "int \<Rightarrow> int" where
  "day_within_year t = day_of t - day_from_year (year_from_time t)"

text \<open>
  \<open>MonthFromTime\<close> and \<open>DateFromTime\<close>, case by case as the specification lists them, on
  the day within the year \<open>d\<close> and the leap indicator \<open>l\<close>.
\<close>

definition month_in_year :: "int \<Rightarrow> int \<Rightarrow> int" where
  "month_in_year d l =
     (if d < 31 then 0 else if d < 59 + l then 1 else if d < 90 + l then 2
      else if d < 120 + l then 3 else if d < 151 + l then 4 else if d < 181 + l then 5
      else if d < 212 + l then 6 else if d < 243 + l then 7 else if d < 273 + l then 8
      else if d < 304 + l then 9 else if d < 334 + l then 10 else 11)"

definition date_in_year :: "int \<Rightarrow> int \<Rightarrow> int" where
  "date_in_year d l =
     (let m = month_in_year d l in
      if m = 0 then d + 1 else if m = 1 then d - 30 else if m = 2 then d - 58 - l
      else if m = 3 then d - 89 - l else if m = 4 then d - 119 - l
      else if m = 5 then d - 150 - l else if m = 6 then d - 180 - l
      else if m = 7 then d - 211 - l else if m = 8 then d - 242 - l
      else if m = 9 then d - 272 - l else if m = 10 then d - 303 - l else d - 333 - l)"

definition month_from_time :: "int \<Rightarrow> int" where
  "month_from_time t = month_in_year (day_within_year t) (in_leap_year (year_from_time t))"

definition date_from_time :: "int \<Rightarrow> int" where
  "date_from_time t = date_in_year (day_within_year t) (in_leap_year (year_from_time t))"

text \<open>
  \<open>MakeDay(y, m, dt)\<close> on integral arguments: the day of 1 January of
  \<open>y + \<lfloor>m / 12\<rfloor>\<close>, plus the days before month \<open>m mod 12\<close>, plus \<open>dt - 1\<close>.
  \<open>month_length\<close> is the number of days of a month, for stating valid dates.
\<close>

definition month_start :: "int \<Rightarrow> int \<Rightarrow> int" where
  "month_start l m =
     [0, 31, 59 + l, 90 + l, 120 + l, 151 + l, 181 + l, 212 + l, 243 + l, 273 + l, 304 + l,
      334 + l] ! nat m"

definition month_length :: "int \<Rightarrow> int \<Rightarrow> int" where
  "month_length l m = (if m = 1 then 28 + l else if m \<in> {3, 5, 8, 10} then 30 else 31)"

definition make_day :: "int \<Rightarrow> int \<Rightarrow> int \<Rightarrow> int" where
  "make_day y m dt =
     (let ym = y + m div 12; mn = m mod 12 in
      day_from_year ym + month_start (in_leap_year ym) mn + dt - 1)"

text \<open>
  Lines 45--47: \<open>day = getDay()\<close>, \<open>month = getMonth() + 1\<close>, \<open>year = getFullYear()\<close>
  of the date the page was created at, and the initial \<open>dataPatient\<close> built from them
  (lines 49--59).
\<close>

definition page_clock_fields :: "int \<Rightarrow> int \<times> int \<times> int" where
  "page_clock_fields t = (week_day t, month_from_time t + 1, year_from_time t)"

definition page_initial_patient :: "rat \<Rightarrow> int \<Rightarrow> data_patient" where
  "page_initial_patient r t =
     (case page_clock_fields t of (day, month, year) \<Rightarrow> initial_data_patient r day month year)"

definition year_of_day_spec :: "int \<Rightarrow> int \<Rightarrow> bool" where
  "year_of_day_spec d y \<longleftrightarrow> day_from_year y \<le> d \<and> d < day_from_year (y + 1)"

lemma day_from_year_Suc: "day_from_year (y + 1) = day_from_year y + days_in_year y"
proof -
  have a: "(y + 1 - 1969) div 4 = (y - 1969) div 4 + (if y mod 4 = 0 then 1 else 0)"
  proof -
    have "y - 1969 + 1 = y + (- 492) * 4" by simp
    then have "(y - 1969 + 1) mod 4 = y mod 4" by (simp only: mod_mult_self1)
    then show ?thesis using div_plus_one [of 4 "y - 1969"] by (simp add: diff_add_eq)
  qed
  have b: "(y + 1 - 1901) div 100 = (y - 1901) div 100 + (if y mod 100 = 0 then 1 else 0)"
  proof -
    have "y - 1901 + 1 = y + (- 19) * 100" by simp
    then have "(y - 1901 + 1) mod 100 = y mod 100" by (simp only: mod_mult_self1)
    then show ?thesis using div_plus_one [of 100 "y - 1901"] by (simp add: diff_add_eq)
  qed
  have c: "(y + 1 - 1601) div 400 = (y - 1601) div 400 + (if y mod 400 = 0 then 1 else 0)"
  proof -
    have "y - 1601 + 1 = y + (- 4) * 400" by simp
    then have "(y - 1601 + 1) mod 400 = y mod 400" by (simp only: mod_mult_self1)
    then show ?thesis using div_plus_one [of 400 "y - 1601"] by (simp add: diff_add_eq)
  qed
  have d: "y mod 100 = 0 \<Longrightarrow> y mod 4 = 0" and e: "y mod 400 = 0 \<Longrightarrow> y mod 100 = 0"
    using dvd_trans [of 4 100 y] dvd_trans [of 100 400 y] by (simp_all add: mod_eq_0_iff_dvd)
  have "day_from_year (y + 1) - day_from_year y =
    365 + (if y mod 4 = 0 then 1 else 0) - (if y mod 100 = 0 then 1 else 0)
        + (if y mod 400 = 0 then 1 else 0)"
    unfolding day_from_year_def a b c by (simp add: algebra_simps)
  moreover have "days_in_year y =
    365 + (if y mod 4 = 0 then 1 else 0) - (if y mod 100 = 0 then 1 else 0)
        + (if y mod 400 = 0 then 1 else 0)"
    using d e unfolding days_in_year_def by (cases "y mod 4 = 0"; cases "y mod 100 = 0") auto
  ultimately show ?thesis by linarith
qed

lemma days_in_year_bounds: "365 \<le> days_in_year y \<and> days_in_year y \<le> 366"
  by (simp add: days_in_year_def)

lemma day_from_year_mono_nat: "day_from_year y \<le> day_from_year (y + int k)"
proof (induction k)
  case 0
  then show ?case by simp
next
  case (Suc k)
  have "day_from_year (y + int k) \<le> day_from_year (y + int k + 1)"
    using day_from_year_Suc [of "y + int k"] days_in_year_bounds [of "y + int k"] by simp
  with Suc show ?case by (simp add: ac_simps)
qed

lemma day_from_year_mono: "y \<le> y' \<Longrightarrow> day_from_year y \<le> day_from_year y'"
  using day_from_year_mono_nat [of y "nat (y' - y)"] by simp

lemma day_from_year_1970 [simp]: "day_from_year 1970 = 0"
  by (simp add: day_from_year_def)

lemma year_of_day_spec_unique:
  assumes "year_of_day_spec d y" and "year_of_day_spec d y'"
  shows "y = y'"
proof (rule ccontr)
  assume "y \<noteq> y'"
  then consider "y + 1 \<le> y'" | "y' + 1 \<le> y" by linarith
  then show False
    using assms day_from_year_mono [of "y + 1" y'] day_from_year_mono [of "y' + 1" y]
    unfolding year_of_day_spec_def by cases auto
qed

lemma year_up_spec: "day_from_year y \<le> d \<Longrightarrow> year_of_day_spec d (year_up d y)"
proof (induction d y rule: year_up.induct)
  case (1 d y)
  then show ?case
    by (cases "day_from_year (y + 1) \<le> d")
      (simp_all add: year_up.simps [of d y] year_of_day_spec_def)
qed

lemma year_down_spec: "d < day_from_year (y + 1) \<Longrightarrow> year_of_day_spec d (year_down d y)"
proof (induction d y rule: year_down.induct)
  case (1 d y)
  then show ?case
    by (cases "d < day_from_year y")
      (simp_all add: year_down.simps [of d y] year_of_day_spec_def)
qed

lemma year_from_day_spec: "year_of_day_spec d (year_from_day d)"
  by (simp add: year_from_day_def year_up_spec year_down_spec)

lemma year_from_day_iff: "year_from_day d = y \<longleftrightarrow> year_of_day_spec d y"
  using year_from_day_spec year_of_day_spec_unique by blast

lemma in_leap_year_days: "days_in_year y = 365 + in_leap_year y \<and> 0 \<le> in_leap_year y \<and> in_leap_year y \<le> 1"
  by (simp add: in_leap_year_def days_in_year_def)

lemma day_within_year_bounds:
  "0 \<le> day_within_year t \<and> day_within_year t < 365 + in_leap_year (year_from_time t)"
  using year_from_day_spec [of "day_of t"] day_from_year_Suc [of "year_from_time t"]
    in_leap_year_days [of "year_from_time t"]
  by (simp add: day_within_year_def year_from_time_def year_of_day_spec_def)

lemma month_date_in_year_bounds:
  assumes "0 \<le> d" "d < 365 + l" "0 \<le> l" "l \<le> 1"
  shows "0 \<le> month_in_year d l \<and> month_in_year d l \<le> 11 \<and>
    1 \<le> date_in_year d l \<and> date_in_year d l \<le> 31"
  using assms by (simp add: month_in_year_def date_in_year_def Let_def)

lemma month_start_offset:
  assumes "0 \<le> m" "m \<le> 11" "0 \<le> l" "l \<le> 1" "1 \<le> dt" "dt \<le> month_length l m"
  shows "month_in_year (month_start l m + dt - 1) l = m \<and>
    date_in_year (month_start l m + dt - 1) l = dt \<and> month_start l m + dt - 1 < 365 + l"
proof -
  have "m = 0 \<or> m = 1 \<or> m = 2 \<or> m = 3 \<or> m = 4 \<or> m = 5 \<or> m = 6 \<or> m = 7 \<or> m = 8 \<or>
    m = 9 \<or> m = 10 \<or> m = 11" using assms(1,2) by presburger
  then show ?thesis
    using assms(3-6)
    by (elim disjE) (simp_all add: month_start_def month_length_def month_in_year_def
        date_in_year_def Let_def)
qed

lemma day_of_within_day: "0 \<le> tm \<Longrightarrow> tm < ms_per_day \<Longrightarrow> day_of (d * ms_per_day + tm) = d"
  by (simp add: day_of_def ms_per_day_def)

subsection \<open>The date model against ECMAScript's definitions\<close>

text \<open>
  \<open>year_from_time\<close>, computed by a search from 1970, is ECMAScript's
  \<open>YearFromTime\<close>: the year \<open>y\<close> with \<open>TimeFromYear(y) \<le> t < TimeFromYear(y + 1)\<close>,
  i.e. the largest year that starts at or before \<open>t\<close>.
\<close>

lemma year_from_time_iff:
  "year_from_time t = y \<longleftrightarrow> time_from_year y \<le> t \<and> t < time_from_year (y + 1)"
  by (simp add: year_from_time_def year_from_day_iff year_of_day_spec_def day_of_def
      time_from_year_def ms_per_day_def int_le_div_iff int_div_less_iff)

text \<open>
  For every time value, \<open>getDay\<close> lies in [0, 6], \<open>getMonth\<close> in [0, 11] and
  \<open>getDate\<close> in [1, 31].
\<close>

lemma calendar_fields_bounds:
  "0 \<le> week_day t \<and> week_day t \<le> 6 \<and> 0 \<le> month_from_time t \<and> month_from_time t \<le> 11 \<and>
   1 \<le> date_from_time t \<and> date_from_time t \<le> 31"
  using month_date_in_year_bounds [of "day_within_year t" "in_leap_year (year_from_time t)"]
    day_within_year_bounds [of t] in_leap_year_days [of "year_from_time t"]
  by (simp add: week_day_def month_from_time_def date_from_time_def)

text \<open>
  A time value within the day \<open>MakeDay(y, m, dt)\<close> of a valid date reads back as that
  date: \<open>getFullYear\<close> gives \<open>y\<close>, \<open>getMonth\<close> gives \<open>m\<close> and \<open>getDate\<close> gives \<open>dt\<close>.
\<close>

lemma make_day_roundtrip:
  assumes "0 \<le> m" "m \<le> 11" "1 \<le> dt" "dt \<le> month_length (in_leap_year y) m"
    and "0 \<le> tm" "tm < ms_per_day"
  shows "year_from_time (make_day y m dt * ms_per_day + tm) = y \<and>
    month_from_time (make_day y m dt * ms_per_day + tm) = m \<and>
    date_from_time (make_day y m dt * ms_per_day + tm) = dt"
proof -
  let ?l = "in_leap_year y" and ?t = "make_day y m dt * ms_per_day + tm"
  have l: "days_in_year y = 365 + ?l" "0 \<le> ?l" "?l \<le> 1" using in_leap_year_days [of y] by simp_all
  have o: "month_in_year (month_start ?l m + dt - 1) ?l = m"
    "date_in_year (month_start ?l m + dt - 1) ?l = dt" "month_start ?l m + dt - 1 < 365 + ?l"
    using month_start_offset [of m ?l dt] assms(1-4) l(2,3) by simp_all
  have "0 \<le> month_start ?l m"
    using assms(1,2) l(2) unfolding month_start_def by (simp add: nth_Cons' split: if_split)
  then have md: "day_of ?t = day_from_year y + (month_start ?l m + dt - 1)"
    using day_of_within_day [OF assms(5,6)] assms(1,2) by (simp add: make_day_def)
  have y: "year_from_time ?t = y"
    using md o(3) assms(3) \<open>0 \<le> month_start ?l m\<close> day_from_year_Suc [of y] l(1)
    by (simp add: year_from_time_def year_from_day_iff year_of_day_spec_def)
  have "day_within_year ?t = month_start ?l m + dt - 1"
    using md y by (simp add: day_within_year_def)
  with y o show ?thesis by (simp add: month_from_time_def date_from_time_def)
qed

subsection \<open>Properties of the page's clock fields\<close>

text \<open>
  C24. The fields the page computes at lines 45--47 have the ranges of \<open>getDay()\<close> and of
  \<open>getMonth() + 1\<close>: the day field lies in [0, 6] and the month field in [1, 12].
\<close>

theorem page_clock_fields_bounds:
  "0 \<le> fst (page_clock_fields t) \<and> fst (page_clock_fields t) \<le> 6 \<and>
   1 \<le> fst (snd (page_clock_fields t)) \<and> fst (snd (page_clock_fields t)) \<le> 12"
  using calendar_fields_bounds [of t] by (simp add: page_clock_fields_def)

text \<open>
  C25. The month and year fields are right: created at any time of the day \<open>dt\<close> of
  month \<open>m\<close> (counted from 0, as \<open>MakeDay\<close> does) of year \<open>y\<close>, the page records
  month \<open>m + 1\<close> and year \<open>y\<close>.
\<close>

theorem page_month_year_fields:
  assumes "0 \<le> m" "m \<le> 11" "1 \<le> dt" "dt \<le> month_length (in_leap_year y) m"
    and "0 \<le> tm" "tm < ms_per_day"
  shows "snd (page_clock_fields (make_day y m dt * ms_per_day + tm)) = (m + 1, y)"
  using make_day_roundtrip [OF assms] by (simp add: page_clock_fields_def)

theorem page_month_year_fields_witness:
  "0 \<le> (3::int) \<and> (3::int) \<le> 11 \<and> 1 \<le> (15::int) \<and> 15 \<le> month_length (in_leap_year 2020) 3 \<and>
   0 \<le> (0::int) \<and> 0 < ms_per_day \<and>
   snd (page_clock_fields (make_day 2020 3 15 * ms_per_day + 0)) = (4, 2020)"
proof -
  have h: "0 \<le> (3::int)" "(3::int) \<le> 11" "1 \<le> (15::int)" "15 \<le> month_length (in_leap_year 2020) 3"
    "0 \<le> (0::int)" "0 < ms_per_day"
    by (simp_all add: month_length_def ms_per_day_def)
  show ?thesis using page_month_year_fields [OF h] h by simp
qed

text \<open>
  C26. The day field is the weekday, not the day of the month (\<open>getDay\<close> at line 45
  where \<open>getDate\<close> is meant): from the 7th of a month on, the day printed in
  \<open>predictionDate\<close> is never the day of the month. On Wednesday 15 April 2020 the page
  records \<open>3/4/2020\<close>.
\<close>

theorem page_day_not_date:
  assumes "7 \<le> date_from_time t"
  shows "fst (page_clock_fields t) \<noteq> date_from_time t"
proof -
  have "week_day t \<le> 6" by (simp add: week_day_def)
  with assms show ?thesis by (simp add: page_clock_fields_def)
qed

theorem page_day_not_date_witness:
  "7 \<le> date_from_time (make_day 2020 3 15 * ms_per_day) \<and>
   fst (page_clock_fields (make_day 2020 3 15 * ms_per_day)) \<noteq>
     date_from_time (make_day 2020 3 15 * ms_per_day) \<and>
   predictionDate (page_initial_patient (1 / 2) (make_day 2020 3 15 * ms_per_day)) = ''3/4/2020''"
proof -
  have h: "7 \<le> date_from_time (make_day 2020 3 15 * ms_per_day)" by code_simp
  have d: "predictionDate (page_initial_patient (1 / 2) (make_day 2020 3 15 * ms_per_day)) =
    ''3/4/2020''" by code_simp
  show ?thesis using page_day_not_date [OF h] h d by simp
qed

end
