(* ===== verification/Spec2Isabelle.thy ===== *)
theory Spec2Isabelle
  imports HomePage FormValidation Calendar
begin

text \<open>
  \<^bold>\<open>A verification library for the home page of communicare-app.\<close>

  The repository's logic is one Angular component, \<open>src/src/app/home/home.page.ts\<close>
  (class \<open>HomePage\<close>). It keeps a form (\<open>covidForm\<close>), a patient record
  (\<open>dataPatient\<close>), a list of results (\<open>predictionResult\<close>) and the data of two bar
  charts (\<open>chartsData\<close>). A submission (\<open>getPredictionResults\<close>) clears an earlier
  result, shows a spinner, has the patient service rebuild the record from the form, sends
  it through the API service and subscribes; when the response arrives, a mapping callback
  reshapes it into one result entry, appends it and rebuilds the charts.
  \<open>closeMessage\<close> empties the result list; \<open>ngOnInit\<close> hides the spinner at start.

  \<^bold>\<open>Theories.\<close>
  \<^item> \<open>Prelude\<close>: the JavaScript runtime behaviour the models share. A property read on
    \<open>undefined\<close> is the error value \<open>Inl (TypeError p)\<close>; reads compose with
    \<open>js_bind\<close>, so the first failing read decides the outcome as the thrown exception
    does; \<open>js_at\<close> is an array read (\<open>None\<close> past the end, as \<open>undefined\<close>);
    \<open>js_push\<close> is \<open>push\<close>. Generic lemmas on filters and on
    \<open>takeWhile\<close>/\<open>dropWhile\<close>; the collection \<open>js_simps\<close>.
  \<^item> \<open>JsNumber\<close>: \<open>Math.round\<close> (\<open>js_round\<close>) and the percentage
    \<open>Math.round(p * 100)\<close> (\<open>percent\<close>); \<open>Number(s)\<close> on strings
    (\<open>js_string_to_number\<close>, ECMAScript's StringToNumber: white space, \<open>Infinity\<close>,
    decimal literals with exponent, \<open>0x\<close>/\<open>0o\<close>/\<open>0b\<close>); integer to string
    (\<open>js_int_to_string\<close>). Lemmas on these models of the built-ins, which the page's
    properties use: \<open>Math.round\<close> meets its nearest-integer contract, printing an
    integer and reading it back is the identity, a string with a \<open>/\<close> reads as
    \<open>NaN\<close>.
  \<^item> \<open>Fhir\<close>: the records of the response (\<open>fhir_data\<close>, \<open>datum\<close>,
    \<open>prediction\<close>, \<open>outcome\<close>, \<open>coding\<close>, \<open>subject\<close>), of the result entry
    (\<open>prediction_result\<close>, \<open>valeurs_predictions\<close>) and of a chart data set.
  \<^item> \<open>ResultMapper\<close>: the mapping callback of lines 133--179 as \<open>build_result\<close> (the
    entry or the \<open>TypeError\<close>), \<open>charts_of\<close> and \<open>map_values\<close> (push, then the
    chart from entry 0). Lemmas: the outcome on every branch (C1), failure exactly on
    malformed envelopes (C2), the entry is pushed but the chart is built from entry 0
    rather than the new entry (C4), no summary or fewer than six entries make it throw
    (C6, C7), the example of the specification (C8), every percentage is the nearest
    integer to \<open>100 p\<close> (C11), a decimal subject reference becomes that number as
    \<open>idPatient\<close> (C13) while a FHIR reference \<open>Patient/123\<close> becomes \<open>NaN\<close> (C14),
    percentages within [0, 100] (C12), the headline is the first summary-tagged entry
    (C15), only the envelope's first record is read (C29), the six values are positional,
    so swapped entries show swapped values (C30).
  \<^item> \<open>Patient\<close>: the patient record, the form's value, the initializer of
    \<open>dataPatient\<close> with \<open>Math.floor(Math.random() * 10000)\<close> and the date string;
    the id lies in [0, 9999] (C19).
  \<^item> \<open>HomePage\<close>: the page's fields as the record \<open>home_page\<close> (with the spinner's class
    list and the subscriptions in flight), each method as a function, and the page's life
    as \<open>home_step\<close> over events: \<open>Edit\<close> (form input), \<open>Submit\<close>, \<open>Close\<close>,
    \<open>Deliver i v\<close> (response \<open>v\<close> of subscription \<open>i\<close>) and \<open>Fail i\<close>
    (transport error). \<open>reach\<close> is the set of states reachable from a start state.
    Separating the submission from the arrival of its response makes every interleaving of
    submissions, dismissals and responses a run. Lemmas: two submissions both land in the
    list whatever the arrival order (C3), the chart always shows entry 0 (C5),
    \<open>closeMessage\<close> (C9), the response does not hide the spinner, against the comment
    of line 125 (C10), a throwing callback changes nothing (C16), a dismissed message is
    refilled by a late response (C17), the effect of a submission (C18), responses are
    appended in arrival order (C27), the chart data always align with
    \<open>chartLabels\<close> (C28). The spinner properties assume what the template, outside the
    sources, is expected to provide: an element \<open>.container__spinner\<close> (so
    \<open>querySelector\<close> never yields \<open>null\<close>) whose classes no template binding writes.
  \<^item> \<open>FormValidation\<close>: the validators of the constructor (lines 66--73). The pattern
    literals are parsed by \<open>parse_re\<close> (anchors, literals, \<open>.\<close>, classes with ranges
    and negation, \<open>*\<close> \<open>+\<close> \<open>?\<close>; anything else is \<open>None\<close>) after
    \<open>Validators.pattern\<close> wraps them in \<open>^\<close>/\<open>$\<close> (\<open>angular_pattern_source\<close>),
    and matched by \<open>regex_test\<close>, a search for a match at every start index;
    \<open>covid_form_errors\<close> lists the error of each control. Lemmas: the name validator
    refuses exactly the values with a unit outside its Latin-1 class (C20), the age
    validator exactly the non-digits (C21), the form is valid exactly under the stated
    conditions (C22), any unit beyond U+00FF is refused in a name (C23). The
    backtracking matcher agrees with an inductive reference semantics \<open>re_matches\<close>
    (\<open>regex_test_iff_matches\<close>).
  \<^item> \<open>Calendar\<close>: the creation date of the page (lines 45--47) as ECMAScript computes
    \<open>getDay\<close>, \<open>getMonth\<close> and \<open>getFullYear\<close> from a time value, and the initial
    patient record built from them (\<open>page_initial_patient\<close>). Lemmas on the date
    model: the year search is the specification's \<open>YearFromTime\<close>
    (\<open>year_from_time_iff\<close>), the getters' ranges, a date built by \<open>MakeDay\<close> reads
    back unchanged. On the page: its day and month fields lie in [0, 6] and [1, 12]
    (C24), its month and year fields are right (C25), its day field is the weekday where
    the day of the month is meant (C26).

  \<^bold>\<open>Across components\<close> (this theory). \<open>page_created\<close> composes the clock of
  \<open>Calendar\<close> with the construction of \<open>HomePage\<close>; its patient record is
  \<open>page_initial_patient\<close> (\<open>page_created_patient\<close>). A submission is sent even
  when the validators of \<open>FormValidation\<close> report an error (C31): the initial form
  fails only on the sex, since the \<open>['']\<close> of the two selections passes
  \<open>required\<close>.

  \<^bold>\<open>Choices.\<close> Probabilities and percentages are exact rationals and integers: the
  IEEE-754 rounding of \<open>p * 100\<close> is not modelled (on \<open>0.145\<close> the browser computes
  14.499999999999998 and shows 14, the model 15). Characters are Isabelle's 8-bit
  characters, read as the UTF-16 code units U+0000--U+00FF, except in the form's text
  controls, which hold UTF-16 code units (\<open>nat list\<close>) so that any input can be
  validated. The patient service
  (\<open>updateDatasPatient\<close>, outside the sources) is a parameter \<open>upd\<close> of type
  \<open>assembler\<close>: every theorem about the page holds for all of them. The transport is the
  environment that chooses which pending subscription is answered, and when. The clock
  is an argument: a time value \<open>t\<close> in local time (the time-zone offset is the
  environment's). No loop of the code is unbounded and no fuel is used; every function of
  the model is total: \<open>nat_to_dec\<close> recurses on \<open>n div 10\<close> (accepted by \<open>fun\<close>),
  \<open>parse_re\<close> on a shorter suffix (measure \<open>length\<close>, every atom consumes a unit),
  \<open>year_up\<close> and \<open>year_down\<close> on the distance in days between the year searched and
  the day (measure \<open>nat\<close> of that distance, which shrinks by at least 365 a step).

  \<^bold>\<open>Not modelled.\<close> The template, styles and chart options (constants, never written;
  the template's spinner element is assumed as stated above);
  \<open>console.log\<close>; the request body built by \<open>createBodyPost\<close> (in the patient
  service, outside the sources); regular-expression syntax the page does not use.
\<close>

section \<open>Properties across components\<close>

text \<open>
  The page as the browser creates it at local time \<open>t\<close>: the constructor reads the clock
  (\<open>Calendar\<close>) into \<open>day\<close>, \<open>month\<close>, \<open>year\<close> (lines 45--47) and Angular
  then runs \<open>ngOnInit\<close> (\<open>HomePage.page_start\<close>).
\<close>

definition page_created :: "rat \<Rightarrow> int \<Rightarrow> string list \<Rightarrow> home_page" where
  "page_created r t cls = page_start r (week_day t) (month_from_time t) (year_from_time t) cls"

text \<open>
  The clock fields and the patient record agree between the two models of the
  constructor: the record the created page holds is \<open>Calendar.page_initial_patient\<close>.
\<close>

lemma page_created_patient: "dataPatient (page_created r t cls) = page_initial_patient r t"
  by (simp add: page_created_def page_start_def ngOnInit_def home_page_init_def
      page_initial_patient_def page_clock_fields_def)

text \<open>
  C31. A submission is sent whatever the validators say: \<open>getPredictionResults\<close> never
  reads the form's validity. On a freshly created page the form reports the sex as
  required, yet a submission clears nothing, shows the spinner and sends the
  request built from the assembled record.
\<close>

theorem submit_ignores_validation:
  "covid_form_errors (covidForm (page_created r t cls)) = [(''sexe'', ''required'')] \<and>
   pending (home_step upd (page_created r t cls) Submit) =
     [(0, upd (page_initial_patient r t) initial_form)]"
proof -
  have "covidForm (page_created r t cls) = initial_form"
    by (simp add: page_created_def page_start_def ngOnInit_def home_page_init_def)
  moreover have "covid_form_errors initial_form = [(''sexe'', ''required'')]"
    by (simp add: covid_form_errors_def initial_form_def form_validator_simps)
  ultimately show ?thesis
    using page_created_patient [of r t cls]
    by (simp add: getPredictionResults_eq page_created_def page_start_def ngOnInit_def
        home_page_init_def)
qed

end
